theory Spec2Isabelle
  imports Complex_Main
begin

section \<open>Shared data\<close>

text \<open>
  A line of command output is \<open>string | ReactNode\<close> in the source. The redirection
  step tells three kinds apart by \<open>typeof\<close>: strings, numbers and everything else
  (rendered elements). A number is carried with the text that \<open>Array.prototype.join\<close>
  renders for it.
\<close>

datatype OutputLine = Str string | Num string | Rich

text \<open>
  The result of a terminal command: \<open>{ output, error?, shouldClear? }\<close>. The terminal
  reads the optional flags as \<open>!!result.error\<close> and \<open>if (result.shouldClear)\<close>, so an
  absent flag is \<open>False\<close>. The fields carry the names the terminal gives them
  (\<open>cmdOutput\<close>, \<open>cmdError\<close>).
\<close>

record CommandResult =
  cmdOutput :: "OutputLine list"
  cmdError :: bool
  shouldClear :: bool

text \<open>The \<open>User\<close> interface; \<open>password\<close> is optional.\<close>

record User =
  username :: string
  password :: "string option"
  uid :: int
  gid :: int
  fullName :: string
  homeDir :: string
  shell :: string

section \<open>Terminal session stack\<close>

text \<open>The stack of usernames of one terminal; the top is the last element.\<close>

type_synonym SessionStack = "string list"

text \<open>\<open>currentUser || 'guest'\<close>: a null or empty global user falls back to guest.\<close>

definition activeTerminalUser :: "SessionStack \<Rightarrow> string option \<Rightarrow> string" where
  "activeTerminalUser sessionStack currentUser =
     (if length sessionStack > 0 then sessionStack ! (length sessionStack - 1)
      else (case currentUser of
              None \<Rightarrow> ''guest''
            | Some u \<Rightarrow> (if u = [] then ''guest'' else u)))"

definition pushSession :: "string \<Rightarrow> SessionStack \<Rightarrow> SessionStack" where
  "pushSession uname prev = prev @ [uname]"

definition closeSession :: "SessionStack \<Rightarrow> SessionStack" where
  "closeSession prev = (if length prev > 1 then butlast prev else prev)"

text \<open>
  The initialisation effect: an empty stack is replaced by the global user, when
  there is one.
\<close>

definition initSession :: "SessionStack \<Rightarrow> string option \<Rightarrow> SessionStack" where
  "initSession sessionStack currentUser =
     (case currentUser of
        None \<Rightarrow> sessionStack
      | Some u \<Rightarrow> (if length sessionStack = 0 \<and> u \<noteq> [] then [u] else sessionStack))"

datatype SessionOp = Push string | Pop

fun sessionStep :: "SessionStack \<Rightarrow> SessionOp \<Rightarrow> SessionStack" where
  "sessionStep st (Push u) = pushSession u st"
| "sessionStep st Pop = closeSession st"

definition sessionRun :: "SessionStack \<Rightarrow> SessionOp list \<Rightarrow> SessionStack" where
  "sessionRun st ops = foldl sessionStep st ops"

section \<open>The su command\<close>

definition suTargetUser :: "string list \<Rightarrow> string" where
  "suTargetUser args = (if length args > 0 then args ! 0 else ''root'')"

definition suPassword :: "string list \<Rightarrow> string" where
  "suPassword args = (if length args > 1 then args ! 1 else [])"

definition suResult :: "string \<Rightarrow> bool \<Rightarrow> CommandResult" where
  "suResult msg err = \<lparr>cmdOutput = [Str msg], cmdError = err, shouldClear = False\<rparr>"

text \<open>
  \<open>su.execute\<close>, with the \<open>spawnSession\<close> hook bound to \<open>pushSession\<close> as the
  terminal binds it: the function returns the command result and the session stack
  after the call.
\<close>

definition su :: "string list \<Rightarrow> User list \<Rightarrow> string \<Rightarrow> SessionStack
    \<Rightarrow> CommandResult \<times> SessionStack" where
  "su args users terminalUser sessionStack =
     (let targetUser = suTargetUser args;
          pw = suPassword args;
          success = (suResult (''Logged in as '' @ targetUser) False,
                     pushSession targetUser sessionStack)
      in if targetUser = terminalUser
         then (suResult (''Already logged in as '' @ targetUser) False, sessionStack)
         else (case find (\<lambda>u. username u = targetUser) users of
                 None \<Rightarrow>
                   (suResult (''su: user '' @ targetUser @ '' does not exist'') True,
                    sessionStack)
               | Some user \<Rightarrow>
                   (if terminalUser \<noteq> ''root''
                    then (if pw \<noteq> []
                          then (if Some pw \<noteq> password user
                                then (suResult ''su: Authentication failure'' True,
                                      sessionStack)
                                else success)
                          else (suResult
                                  ''su: Password required (usage: su <user> <pass>)'' True,
                                sessionStack))
                    else success)))"

text \<open>A small user database for concrete runs: root, alice and bob, each with a password.\<close>

definition exampleUser :: "string \<Rightarrow> string option \<Rightarrow> int \<Rightarrow> User" where
  "exampleUser n pw i =
     \<lparr>username = n, password = pw, uid = i, gid = i, fullName = n,
      homeDir = ''/home/'' @ n, shell = ''/bin/bash''\<rparr>"

definition exampleUsers :: "User list" where
  "exampleUsers =
     [exampleUser ''root'' (Some ''admin'') 0,
      exampleUser ''alice'' (Some ''wonder'') 1000,
      exampleUser ''bob'' (Some ''secret'') 1001]"

section \<open>Window manager\<close>

text \<open>
  \<open>WindowSession\<close> is the persisted form of a window and \<open>WindowState\<close> the live
  one, which adds the rendered \<open>content\<close>. The fields \<open>id\<close> and \<open>type\<close> are named
  \<open>wid\<close> and \<open>wtype\<close>; \<open>position\<close> is the pair \<open>(x, y)\<close> and \<open>size\<close> (here \<open>wsize\<close>) the pair
  \<open>(width, height)\<close>. Z-indices start at 100 and grow by one, so they are integers.
  \<open>data\<close> is \<open>{ path?: string }\<close> or absent.
\<close>

record WindowData =
  dataPath :: "string option"

record WindowSession =
  wid :: string
  wtype :: string
  title :: string
  isMinimized :: bool
  isMaximized :: bool
  position :: "int \<times> int"
  wsize :: "int \<times> int"
  zIndex :: int
  data :: "WindowData option"

text \<open>The rendered content: which component, with which properties.\<close>

datatype AppContent =
    FileManagerContent "string option"
  | SettingsContent
  | PhotosContent
  | MusicContent
  | MessagesContent
  | BrowserContent
  | TerminalContent
  | DevCenterContent
  | PlaceholderContent string

record WindowState = WindowSession +
  content :: AppContent

text \<open>\<open>toUpperCase\<close> on one character, for the ASCII letters.\<close>

definition toUpperCase :: "char \<Rightarrow> char" where
  "toUpperCase c =
     (let n = (of_char c :: nat) in if 97 \<le> n \<and> n \<le> 122 then char_of (n - 32) else c)"

definition dataPathOf :: "WindowData option \<Rightarrow> string option" where
  "dataPathOf d = (case d of None \<Rightarrow> None | Some r \<Rightarrow> dataPath r)"

text \<open>\<open>getAppContent\<close>: the content and the title for an app type.\<close>

definition getAppContent :: "string \<Rightarrow> WindowData option \<Rightarrow> AppContent \<times> string" where
  "getAppContent ty d =
     (if ty = ''finder'' then (FileManagerContent (dataPathOf d), ''Finder'')
      else if ty = ''settings'' then (SettingsContent, ''System Settings'')
      else if ty = ''photos'' then (PhotosContent, ''Photos'')
      else if ty = ''music'' then (MusicContent, ''Music'')
      else if ty = ''messages'' then (MessagesContent, ''Messages'')
      else if ty = ''browser'' then (BrowserContent, ''Browser'')
      else if ty = ''terminal'' then (TerminalContent, ''Terminal'')
      else if ty = ''trash'' then (FileManagerContent (Some ''~/.Trash''), ''Trash'')
      else if ty = ''dev-center'' then (DevCenterContent, ''DEV Center'')
      else (let t = map toUpperCase (take 1 ty) @ drop 1 ty
            in (PlaceholderContent t, t)))"

text \<open>Decimal rendering of \<open>Date.now()\<close> inside the template string of a window id.\<close>

fun showNat :: "nat \<Rightarrow> string" where
  "showNat n =
     (if n < 10 then [char_of (48 + n)]
      else showNat (n div 10) @ [char_of (48 + n mod 10)])"

declare showNat.simps [simp del]

text \<open>
  The state of the window manager: the \<open>windows\<close> list and the counter
  \<open>topZIndexRef.current\<close>.
\<close>

record WM =
  windows :: "WindowState list"
  topZIndex :: int

definition initialWM :: WM where
  "initialWM = \<lparr>windows = [], topZIndex = 100\<rparr>"

text \<open>\<open>openWindow\<close>; \<open>now\<close> is the value of \<open>Date.now()\<close>.\<close>

definition openWindow :: "WM \<Rightarrow> string \<Rightarrow> WindowData option \<Rightarrow> nat \<Rightarrow> WM" where
  "openWindow wm ty d now =
     (let (c, t) = getAppContent ty d;
          prevWindows = windows wm;
          newZIndex = topZIndex wm + 1;
          newWindow = \<lparr>wid = ty @ ''-'' @ showNat now,
                       wtype = ty,
                       title = t,
                       isMinimized = False,
                       isMaximized = False,
                       position = (100 + int (length prevWindows) * 30,
                                   80 + int (length prevWindows) * 30),
                       wsize = (900, 600),
                       zIndex = newZIndex,
                       data = d,
                       content = c\<rparr>
      in \<lparr>windows = prevWindows @ [newWindow], topZIndex = newZIndex\<rparr>)"

definition closeWindow :: "WM \<Rightarrow> string \<Rightarrow> WM" where
  "closeWindow wm i = wm\<lparr>windows := filter (\<lambda>w. wid w \<noteq> i) (windows wm)\<rparr>"

text \<open>
  \<open>visibleWindows.reduce((max, w) => w.zIndex > max.zIndex ? w : max, visibleWindows[0])\<close>,
  for a non-empty list.
\<close>

definition topOf :: "WindowState list \<Rightarrow> WindowState" where
  "topOf ws = foldl (\<lambda>mx w. if zIndex w > zIndex mx then w else mx) (hd ws) ws"

definition minimizeWindow :: "WM \<Rightarrow> string \<Rightarrow> WM" where
  "minimizeWindow wm i =
     (let updated = map (\<lambda>w. if wid w = i then w\<lparr>isMinimized := True\<rparr> else w) (windows wm);
          visibleWindows = filter (\<lambda>w. \<not> isMinimized w) updated
      in if length visibleWindows > 0
         then (let topWindow = topOf visibleWindows;
                   newZIndex = topZIndex wm + 1
               in \<lparr>windows = map (\<lambda>w. if wid w = wid topWindow
                                        then w\<lparr>zIndex := newZIndex\<rparr> else w) updated,
                   topZIndex = newZIndex\<rparr>)
         else wm\<lparr>windows := updated\<rparr>)"

definition maximizeWindow :: "WM \<Rightarrow> string \<Rightarrow> WM" where
  "maximizeWindow wm i =
     wm\<lparr>windows := map (\<lambda>w. if wid w = i then w\<lparr>isMaximized := \<not> isMaximized w\<rparr> else w)
                       (windows wm)\<rparr>"

definition focusWindow :: "WM \<Rightarrow> string \<Rightarrow> WM" where
  "focusWindow wm i =
     (let newZIndex = topZIndex wm + 1
      in \<lparr>windows = map (\<lambda>w. if wid w = i
                               then w\<lparr>zIndex := newZIndex, isMinimized := False\<rparr> else w)
                         (windows wm),
          topZIndex = newZIndex\<rparr>)"

text \<open>
  What \<open>localStorage.getItem\<close> holds under the user's key when the windows are
  restored: nothing (or the empty string), text that \<open>JSON.parse\<close> or the mapping
  rejects, or a list of window sessions.
\<close>

datatype StoredWindows = NoItem | Malformed | Sessions "WindowSession list"

definition restoreWindow :: "WindowSession \<Rightarrow> WindowState" where
  "restoreWindow session =
     \<lparr>wid = wid session, wtype = wtype session, title = title session,
      isMinimized = isMinimized session, isMaximized = isMaximized session,
      position = position session, wsize = wsize session, zIndex = zIndex session,
      data = data session,
      content = fst (getAppContent (wtype session) (data session))\<rparr>"

text \<open>
  The restore effect. \<open>Math.max(100, ...zs)\<close> is the fold of \<open>max\<close> from 100. Without
  a stored list the windows are emptied and the counter is left as it is.
\<close>

definition restoreWindows :: "WM \<Rightarrow> StoredWindows \<Rightarrow> WM" where
  "restoreWindows wm stored =
     (case stored of
        Sessions sessions \<Rightarrow>
          (let restoredWindows = map restoreWindow sessions;
               maxZ = foldl max 100 (map zIndex restoredWindows)
           in \<lparr>windows = restoredWindows, topZIndex = maxZ\<rparr>)
      | NoItem \<Rightarrow> wm\<lparr>windows := []\<rparr>
      | Malformed \<Rightarrow> wm\<lparr>windows := []\<rparr>)"

text \<open>Sequences of open and focus calls, and the z-index each call assigns.\<close>

datatype WMOp = OpenWindow string "WindowData option" nat | FocusWindow string

fun wmStep :: "WM \<Rightarrow> WMOp \<Rightarrow> WM" where
  "wmStep wm (OpenWindow ty d now) = openWindow wm ty d now"
| "wmStep wm (FocusWindow i) = focusWindow wm i"

definition wmRun :: "WM \<Rightarrow> WMOp list \<Rightarrow> WM" where
  "wmRun wm ops = foldl wmStep wm ops"

text \<open>
  \<open>newZIndex\<close> of each call of a sequence, in order: the counter right after the
  call's increment.
\<close>

fun assignedZ :: "WM \<Rightarrow> WMOp list \<Rightarrow> int list" where
  "assignedZ wm [] = []"
| "assignedZ wm (op # ops) = topZIndex (wmStep wm op) # assignedZ (wmStep wm op) ops"

text \<open>No window lies above the counter: true initially and after every restore.\<close>

definition belowCounter :: "WM \<Rightarrow> bool" where
  "belowCounter wm = list_all (\<lambda>w. zIndex w \<le> topZIndex wm) (windows wm)"

text \<open>A stored finder window with a given id and z-index, for concrete runs.\<close>

definition exampleSession :: "string \<Rightarrow> int \<Rightarrow> WindowSession" where
  "exampleSession i z =
     \<lparr>wid = i, wtype = ''finder'', title = ''Finder'', isMinimized = False,
      isMaximized = False, position = (100, 80), wsize = (900, 600), zIndex = z,
      data = None\<rparr>"

text \<open>Two windows opened one after the other from the initial state.\<close>

definition twoWindows :: WM where
  "twoWindows = wmRun initialWM [OpenWindow ''finder'' None 1, OpenWindow ''music'' None 2]"

section \<open>Strings as the terminal uses them\<close>

text \<open>
  Strings are lists of characters. White space, for \<open>trim\<close> and for the \<open>\s\<close> of a
  regular expression, is the ASCII white space: space, tab, line feed, vertical tab,
  form feed and carriage return. The host language also counts some characters
  outside ASCII as white space (the no-break space, the byte-order mark, the line
  and paragraph separators and the other space separators); input lines that hold
  such characters are outside this model.
\<close>

definition newline :: char where
  "newline = CHR 0x0A"

definition isSpace :: "char \<Rightarrow> bool" where
  "isSpace c = (c \<in> set [CHR '' '', CHR 0x09, CHR 0x0A, CHR 0x0B, CHR 0x0C, CHR 0x0D])"

definition trim :: "string \<Rightarrow> string" where
  "trim s = rev (dropWhile isSpace (rev (dropWhile isSpace s)))"

definition startsWith :: "string \<Rightarrow> string \<Rightarrow> bool" where
  "startsWith s p = (take (length p) s = p)"

text \<open>\<open>s.includes(sub)\<close>.\<close>

fun includesStr :: "string \<Rightarrow> string \<Rightarrow> bool" where
  "includesStr [] sub = (sub = [])"
| "includesStr (c # cs) sub = (startsWith (c # cs) sub \<or> includesStr cs sub)"

text \<open>
  \<open>s.split(sep)\<close> for a non-empty separator: \<open>skip\<close> counts the characters of a
  separator still to be passed over, \<open>cur\<close> is the piece being collected.
\<close>

fun splitAux :: "string \<Rightarrow> nat \<Rightarrow> string \<Rightarrow> string \<Rightarrow> string list" where
  "splitAux sep skip cur [] = [cur]"
| "splitAux sep skip cur (c # cs) =
     (if skip > 0 then splitAux sep (skip - 1) cur cs
      else if startsWith (c # cs) sep then cur # splitAux sep (length sep - 1) [] cs
      else splitAux sep 0 (cur @ [c]) cs)"

definition splitStr :: "string \<Rightarrow> string \<Rightarrow> string list" where
  "splitStr s sep = splitAux sep 0 [] s"

text \<open>
  \<open>s.split(/\s+/)\<close>: the pieces between maximal runs of white space; \<open>inRun\<close> tells
  that the previous character was white space.
\<close>

fun splitWsAux :: "bool \<Rightarrow> string \<Rightarrow> string \<Rightarrow> string list" where
  "splitWsAux inRun cur [] = [cur]"
| "splitWsAux inRun cur (c # cs) =
     (if isSpace c
      then (if inRun then splitWsAux True cur cs else cur # splitWsAux True [] cs)
      else splitWsAux False (cur @ [c]) cs)"

definition splitWs :: "string \<Rightarrow> string list" where
  "splitWs s = splitWsAux False [] s"

text \<open>\<open>xs.join(sep)\<close>.\<close>

fun joinStr :: "string list \<Rightarrow> string \<Rightarrow> string" where
  "joinStr [] sep = []"
| "joinStr [x] sep = x"
| "joinStr (x # y # ys) sep = x @ sep @ joinStr (y # ys) sep"

text \<open>\<open>s.replace(/\./g, '\\.')\<close> and \<open>s.replace(/\*/g, '.*')\<close>.\<close>

definition escapeDots :: "string \<Rightarrow> string" where
  "escapeDots s = concat (map (\<lambda>c. if c = CHR ''.'' then [CHR 0x5C, CHR ''.''] else [c]) s)"

definition starsToAny :: "string \<Rightarrow> string" where
  "starsToAny s = concat (map (\<lambda>c. if c = CHR ''*'' then ''.*'' else [c]) s)"

section \<open>Regular expressions of the host language\<close>

text \<open>
  What a call can do: return a value, throw, or leave the part of the host language
  that is modelled here.
\<close>

datatype 'a Outcome = Returned 'a | Thrown | Unmodelled

definition consOutcome :: "'a \<Rightarrow> 'a list Outcome \<Rightarrow> 'a list Outcome" where
  "consOutcome x r =
     (case r of Returned xs \<Rightarrow> Returned (x # xs) | Thrown \<Rightarrow> Thrown | Unmodelled \<Rightarrow> Unmodelled)"

text \<open>
  The fragment of \<open>RegExp\<close> that is modelled: a sequence of atoms, each a literal
  character or the dot, each optionally followed by one of the quantifiers \<open>*\<close>,
  \<open>+\<close>, \<open>?\<close> (and a lazy mark \<open>?\<close>, which does not change whether a whole string
  matches), between the anchors \<open>^\<close> and \<open>$\<close>. A backslash before a syntax character
  makes it a literal. A quantifier with nothing to repeat is the host's
  \<open>SyntaxError\<close>. Groups, classes, braces, alternation, inner anchors and the other
  escapes are left unmodelled.
\<close>

datatype Atom = Lit char | AnyChar

datatype Quant = Once | Star | Plus | Opt

type_synonym Regex = "(Atom \<times> Quant) list"

datatype Token = TAtom Atom | TQuant Quant

definition syntaxChars :: string where
  "syntaxChars = [CHR ''^'', CHR ''$'', CHR 0x5C, CHR ''.'', CHR ''*'', CHR ''+'', CHR ''?'',
                  CHR ''('', CHR '')'', CHR ''['', CHR '']'', CHR ''{'', CHR ''}'', CHR ''|'',
                  CHR ''/'']"

fun tokens :: "string \<Rightarrow> Token list Outcome" where
  "tokens [] = Returned []"
| "tokens (c # rest) =
     (if c = CHR 0x5C
      then (case rest of
              [] \<Rightarrow> Unmodelled
            | x # rest' \<Rightarrow>
                (if x \<in> set syntaxChars then consOutcome (TAtom (Lit x)) (tokens rest')
                 else Unmodelled))
      else if c = CHR ''.'' then consOutcome (TAtom AnyChar) (tokens rest)
      else if c = CHR ''*'' then consOutcome (TQuant Star) (tokens rest)
      else if c = CHR ''+'' then consOutcome (TQuant Plus) (tokens rest)
      else if c = CHR ''?'' then consOutcome (TQuant Opt) (tokens rest)
      else if c \<in> set syntaxChars then Unmodelled
      else consOutcome (TAtom (Lit c)) (tokens rest))"

fun atoms :: "Token list \<Rightarrow> Regex Outcome" where
  "atoms [] = Returned []"
| "atoms (TQuant q # ts) = Thrown"
| "atoms (TAtom a # TQuant q # TQuant Opt # ts) = consOutcome (a, q) (atoms ts)"
| "atoms (TAtom a # TQuant q # ts) = consOutcome (a, q) (atoms ts)"
| "atoms (TAtom a # ts) = consOutcome (a, Once) (atoms ts)"

text \<open>\<open>new RegExp(source)\<close>, for a source of the form \<open>^...$\<close>.\<close>

definition newRegExp :: "string \<Rightarrow> Regex Outcome" where
  "newRegExp source =
     (case source of
        [] \<Rightarrow> Unmodelled
      | c # rest \<Rightarrow>
          (if c = CHR ''^'' \<and> rest \<noteq> [] \<and> last rest = CHR ''$''
           then (case tokens (butlast rest) of
                   Returned ts \<Rightarrow> atoms ts
                 | Thrown \<Rightarrow> Thrown
                 | Unmodelled \<Rightarrow> Unmodelled)
           else Unmodelled))"

text \<open>The dot matches every character but a line terminator.\<close>

fun atomMatches :: "Atom \<Rightarrow> char \<Rightarrow> bool" where
  "atomMatches (Lit d) c = (c = d)"
| "atomMatches AnyChar c = (c \<noteq> CHR 0x0A \<and> c \<noteq> CHR 0x0D)"

text \<open>\<open>regex.test(s)\<close> for an anchored expression: does the whole of \<open>s\<close> match?\<close>

fun regexTest :: "Regex \<Rightarrow> string \<Rightarrow> bool" where
  "regexTest [] s = (s = [])"
| "regexTest ((a, Once) # r) [] = False"
| "regexTest ((a, Once) # r) (c # cs) = (atomMatches a c \<and> regexTest r cs)"
| "regexTest ((a, Opt) # r) [] = regexTest r []"
| "regexTest ((a, Opt) # r) (c # cs) = (regexTest r (c # cs) \<or> (atomMatches a c \<and> regexTest r cs))"
| "regexTest ((a, Star) # r) [] = regexTest r []"
| "regexTest ((a, Star) # r) (c # cs) =
     (regexTest r (c # cs) \<or> (atomMatches a c \<and> regexTest ((a, Star) # r) cs))"
| "regexTest ((a, Plus) # r) [] = False"
| "regexTest ((a, Plus) # r) (c # cs) = (atomMatches a c \<and> regexTest ((a, Star) # r) cs)"

section \<open>Glob expansion\<close>

text \<open>
  A node of the file tree, with the fields the terminal and the desktop read:
  \<open>id\<close>, \<open>name\<close>, \<open>type\<close>, \<open>content\<close> and \<open>children\<close>.
\<close>

datatype NodeType = File | Directory

datatype FileNode =
  FileNode (nodeId: string) (nodeName: string) (nodeType: NodeType)
    (nodeContent: "string option") (nodeChildren: "FileNode list option")

text \<open>
  \<open>expandGlob\<close>. \<open>files\<close> is what \<open>listDirectory(resolvedPath, activeTerminalUser)\<close>
  returns for the working directory: \<open>None\<close> for null.
\<close>

definition expandGlob :: "FileNode list option \<Rightarrow> string \<Rightarrow> string list Outcome" where
  "expandGlob files pattern =
     (if \<not> includesStr pattern ''*'' then Returned [pattern]
      else if includesStr pattern ''/'' then Returned [pattern]
      else (case files of
              None \<Rightarrow> Returned [pattern]
            | Some fs \<Rightarrow>
                (case newRegExp (''^'' @ starsToAny (escapeDots pattern) @ ''$'') of
                   Returned regex \<Rightarrow>
                     (let matches = map nodeName (filter (\<lambda>f. regexTest regex (nodeName f)) fs)
                      in Returned (if length matches > 0 then matches else [pattern]))
                 | Thrown \<Rightarrow> Thrown
                 | Unmodelled \<Rightarrow> Unmodelled)))"

text \<open>\<open>rawArgs.forEach(arg => args.push(...expandGlob(arg)))\<close>.\<close>

fun expandArgs :: "FileNode list option \<Rightarrow> string list \<Rightarrow> string list Outcome" where
  "expandArgs files [] = Returned []"
| "expandArgs files (arg # rawArgs) =
     (case expandGlob files arg of
        Returned xs \<Rightarrow>
          (case expandArgs files rawArgs of
             Returned ys \<Rightarrow> Returned (xs @ ys)
           | Thrown \<Rightarrow> Thrown
           | Unmodelled \<Rightarrow> Unmodelled)
      | Thrown \<Rightarrow> Thrown
      | Unmodelled \<Rightarrow> Unmodelled)"

text \<open>
  The literal reading of a glob, for comparison with the code: \<open>*\<close> stands for any
  run of characters, every other character for itself, and the whole name must match.
\<close>

fun globMatches :: "string \<Rightarrow> string \<Rightarrow> bool" where
  "globMatches [] s = (s = [])"
| "globMatches (p # ps) [] = (p = CHR ''*'' \<and> globMatches ps [])"
| "globMatches (p # ps) (c # cs) =
     (if p = CHR ''*'' then globMatches ps (c # cs) \<or> globMatches (p # ps) cs
      else p = c \<and> globMatches ps cs)"

definition exampleDir :: "FileNode list" where
  "exampleDir =
     [FileNode ''1'' ''a.txt'' File (Some '''') None,
      FileNode ''2'' ''b.txt'' File (Some '''') None,
      FileNode ''3'' ''c.md'' File (Some '''') None]"

text \<open>
  Patterns on which the translation to a regular expression is the glob: every
  character is \<open>*\<close>, a dot, or no syntax character of regular expressions. Names
  without line terminators, which the dot would not match.
\<close>

definition plainChar :: "char \<Rightarrow> bool" where
  "plainChar c = (c = CHR ''*'' \<or> c = CHR ''.'' \<or> c \<notin> set syntaxChars)"

definition noLineBreak :: "string \<Rightarrow> bool" where
  "noLineBreak s = list_all (\<lambda>c. c \<noteq> CHR 0x0A \<and> c \<noteq> CHR 0x0D) s"

text \<open>What the translation makes of one pattern character, as tokens and as an atom.\<close>

definition globToken :: "char \<Rightarrow> Token list" where
  "globToken c = (if c = CHR ''*'' then [TAtom AnyChar, TQuant Star] else [TAtom (Lit c)])"

definition globAtom :: "char \<Rightarrow> Atom \<times> Quant" where
  "globAtom c = (if c = CHR ''*'' then (AnyChar, Star) else (Lit c, Once))"

section \<open>Command execution\<close>

text \<open>
  An entry of the transcript. The fields \<open>command\<close>, \<open>output\<close>, \<open>error\<close>, \<open>path\<close>,
  \<open>accentColor\<close> and \<open>user\<close> carry the prefix \<open>h\<close>; an absent \<open>error\<close> is \<open>False\<close>.
\<close>

record CommandHistory =
  hCommand :: string
  hOutput :: "OutputLine list"
  hError :: bool
  hPath :: string
  hAccentColor :: "string option"
  hUser :: "string option"

text \<open>
  The state of one terminal, with the file system it works on: the transcript
  \<open>history\<close>, the text of the input field (\<open>input\<close>, here \<open>inputLine\<close>), the
  persistent \<open>commandHistory\<close> with its index, the session stack and the working
  directory.
\<close>

record 'fs Terminal =
  history :: "CommandHistory list"
  inputLine :: string
  commandHistory :: "string list"
  historyIndex :: int
  sessionStack :: SessionStack
  currentPath :: string
  fileSystem :: 'fs

text \<open>
  What the terminal takes from its surroundings: the operations and values of the
  file-system context (\<open>readFile\<close> and \<open>writeFile\<close> as the redirection step calls
  them, without an acting user, so as the globally logged-in user; \<open>writeFile\<close>
  returns the new file system and its boolean result), the accent colour of the
  application context, and the dispatch of a command name with its arguments
  (\<open>generateOutput\<close>: the registry of built-in commands and the launchers on the
  lookup path), which may change the terminal and the file system.
\<close>

record 'fs Hooks =
  listDirectory :: "'fs \<Rightarrow> string \<Rightarrow> string \<Rightarrow> FileNode list option"
  readFile :: "'fs \<Rightarrow> string \<Rightarrow> string option"
  writeFile :: "'fs \<Rightarrow> string \<Rightarrow> string \<Rightarrow> 'fs \<times> bool"
  contextResolvePath :: "string \<Rightarrow> string"
  homePath :: string
  currentUser :: "string option"
  accentColor :: string
  generateOutput :: "string \<Rightarrow> string list \<Rightarrow> 'fs Terminal \<Rightarrow> CommandResult \<times> 'fs Terminal"

text \<open>The terminal's \<open>resolvePath\<close>, relative to its own working directory.\<close>

definition resolvePath :: "'fs Hooks \<Rightarrow> string \<Rightarrow> string \<Rightarrow> string" where
  "resolvePath hk cwd path =
     (if startsWith path ''/'' then contextResolvePath hk path
      else if path = ''~'' then homePath hk
      else if startsWith path ''~/'' then homePath hk @ drop 1 path
      else (let parts = filter (\<lambda>p. p \<noteq> []) (splitStr cwd ''/'');
                pathParts = splitStr path ''/''
            in ''/'' @ joinStr (foldl (\<lambda>ps part.
                                 if part = ''..'' then butlast ps
                                 else if part \<noteq> ''.'' \<and> part \<noteq> [] then ps @ [part]
                                 else ps) parts pathParts) ''/''))"

definition getTerminalAccentColor :: "'fs Hooks \<Rightarrow> 'fs Terminal \<Rightarrow> string" where
  "getTerminalAccentColor hk t =
     (let u = activeTerminalUser (sessionStack t) (currentUser hk)
      in if u = ''root'' then ''#ef4444''
         else if Some u = currentUser hk then accentColor hk
         else ''#a855f7'')"

text \<open>
  Redirection parsing: \<open>>>\<close> is looked for before \<open>>\<close>; the command is the text
  before the first operator and the target the text between the first and the second
  one (or the end), both trimmed. The result is \<open>(commandStr, redirectPath,
  appendMode)\<close>, with \<open>None\<close> for a null \<open>redirectPath\<close>.
\<close>

definition parseRedirect :: "string \<Rightarrow> string \<times> string option \<times> bool" where
  "parseRedirect trimmed =
     (if includesStr trimmed ''>>''
      then (case splitStr trimmed ''>>'' of
              p0 # p1 # _ \<Rightarrow> (trim p0, Some (trim p1), True)
            | [p0] \<Rightarrow> (trim p0, None, True)
            | [] \<Rightarrow> ([], None, True))
      else if includesStr trimmed ''>''
      then (case splitStr trimmed ''>'' of
              p0 # p1 # _ \<Rightarrow> (trim p0, Some (trim p1), False)
            | [p0] \<Rightarrow> (trim p0, None, False)
            | [] \<Rightarrow> ([], None, False))
      else (trimmed, None, False))"

text \<open>\<open>typeof o === 'string' || typeof o === 'number'\<close>, and the text \<open>join\<close> gives a line.\<close>

fun isText :: "OutputLine \<Rightarrow> bool" where
  "isText (Str s) = True"
| "isText (Num s) = True"
| "isText Rich = False"

fun lineText :: "OutputLine \<Rightarrow> string" where
  "lineText (Str s) = s"
| "lineText (Num s) = s"
| "lineText Rich = []"

definition textContent :: "OutputLine list \<Rightarrow> string" where
  "textContent out = joinStr (map lineText (filter isText out)) [newline]"

text \<open>
  The redirection step, from the file system, the parsed target and mode, and the
  command's output and error flag, to the file system and the output and error flag
  of the transcript entry. An empty target and an empty text both skip the write.
\<close>

definition redirectWrite :: "'fs Hooks \<Rightarrow> 'fs \<Rightarrow> string option \<Rightarrow> bool
    \<Rightarrow> OutputLine list \<Rightarrow> bool \<Rightarrow> 'fs \<times> OutputLine list \<times> bool" where
  "redirectWrite hk fs redirectPath appendMode out err =
     (case redirectPath of
        None \<Rightarrow> (fs, out, err)
      | Some p \<Rightarrow>
          (if p = [] then (fs, out, err)
           else if textContent out \<noteq> []
           then (let existing = readFile hk fs p;
                     finalContent =
                       (case existing of
                          None \<Rightarrow> textContent out
                        | Some e \<Rightarrow>
                            (if appendMode \<and> e \<noteq> []
                             then e @ [newline] @ textContent out
                             else textContent out));
                     (fs', success) = writeFile hk fs p finalContent
                 in if \<not> success
                    then (fs', [Str (''Failed to write to '' @ p)], True)
                    else (fs', [], err))
           else (fs, out, err)))"

text \<open>
  The end of \<open>executeCommand\<close>, after the command has run: \<open>t\<close> is the terminal
  when the line was submitted (its input, working directory and effective user go
  into the transcript entry), \<open>t'\<close> the terminal the command left.
\<close>

definition completeCommand :: "'fs Hooks \<Rightarrow> 'fs Terminal \<Rightarrow> string option \<Rightarrow> bool
    \<Rightarrow> CommandResult \<Rightarrow> 'fs Terminal \<Rightarrow> 'fs Terminal" where
  "completeCommand hk t redirectPath appendMode result t' =
     (if shouldClear result
      then t'\<lparr>history := [], inputLine := [], historyIndex := - 1\<rparr>
      else (let (fs', out, err) =
                  redirectWrite hk (fileSystem t') redirectPath appendMode
                    (cmdOutput result) (cmdError result)
            in t'\<lparr>history := history t' @
                      [\<lparr>hCommand = inputLine t, hOutput = out, hError = err,
                        hPath = currentPath t,
                        hAccentColor = Some (getTerminalAccentColor hk t),
                        hUser = Some (activeTerminalUser (sessionStack t) (currentUser hk))\<rparr>],
                    inputLine := [], historyIndex := - 1, fileSystem := fs'\<rparr>))"

text \<open>
  \<open>executeCommand\<close> either completes with a new terminal state, or is rejected by
  an exception (with the state reached so far), or leaves the modelled fragment.
\<close>

datatype 'a Exec = Done 'a | Rejected 'a | NotModelled

definition executeCommand :: "'fs Hooks \<Rightarrow> 'fs Terminal \<Rightarrow> 'fs Terminal Exec" where
  "executeCommand hk t =
     (let trimmed = trim (inputLine t);
          t1 = (if trimmed \<noteq> [] then t\<lparr>commandHistory := commandHistory t @ [trimmed]\<rparr>
                else t)
      in if trimmed = []
         then Done (t1\<lparr>history := history t @
                      [\<lparr>hCommand = [], hOutput = [], hError = False, hPath = currentPath t,
                        hAccentColor = None, hUser = None\<rparr>]\<rparr>)
         else (let (commandStr, redirectPath, appendMode) = parseRedirect trimmed;
                   parts = splitWs commandStr;
                   command = (case parts of [] \<Rightarrow> [] | c # _ \<Rightarrow> c);
                   rawArgs = drop 1 parts;
                   files = listDirectory hk (fileSystem t)
                             (resolvePath hk (currentPath t) (currentPath t))
                             (activeTerminalUser (sessionStack t) (currentUser hk))
               in (case expandArgs files rawArgs of
                     Thrown \<Rightarrow> Rejected t1
                   | Unmodelled \<Rightarrow> NotModelled
                   | Returned args \<Rightarrow>
                       (let (result, t2) = generateOutput hk command args t1
                        in Done (completeCommand hk t redirectPath appendMode result t2)))))"

section \<open>A file store and two commands for concrete runs\<close>

text \<open>
  Modelled from the spec: the file-system context (\<open>FileSystemContext\<close>) is not part
  of the sources at hand. A flat store from absolute paths to file contents stands
  for it. \<open>readFile\<close> is null on a missing node; \<open>writeFile\<close> "fails if target
  missing" and otherwise replaces the content. Permissions are left out: the acting
  user may read and write every file of the store.
\<close>

type_synonym FileStore = "(string \<times> string) list"

definition storeReadFile :: "FileStore \<Rightarrow> string \<Rightarrow> string option" where
  "storeReadFile fs p = map_of fs p"

definition storeWriteFile :: "FileStore \<Rightarrow> string \<Rightarrow> string \<Rightarrow> FileStore \<times> bool" where
  "storeWriteFile fs p c =
     (if map_of fs p = None then (fs, False)
      else (map (\<lambda>(k, v). if k = p then (k, c) else (k, v)) fs, True))"

text \<open>
  Modelled from the spec: the command registry is not part of the sources at hand.
  Of the commands only what the spec's redirection example needs is modelled: \<open>echo\<close>
  prints its arguments, separated by spaces, as one line; \<open>cat\<close> prints the content
  of the file its argument names, or fails; any other name is "command not found".
\<close>

definition storeDispatch :: "string \<Rightarrow> string list \<Rightarrow> FileStore Terminal
    \<Rightarrow> CommandResult \<times> FileStore Terminal" where
  "storeDispatch command args t =
     (if command = ''echo''
      then (\<lparr>cmdOutput = [Str (joinStr args '' '')], cmdError = False, shouldClear = False\<rparr>, t)
      else if command = ''cat''
      then (case args of
              [] \<Rightarrow> (\<lparr>cmdOutput = [Str ''cat: missing operand''], cmdError = True,
                      shouldClear = False\<rparr>, t)
            | a # _ \<Rightarrow>
                (case storeReadFile (fileSystem t) a of
                   None \<Rightarrow> (\<lparr>cmdOutput = [Str (''cat: '' @ a @ '': No such file or directory'')],
                             cmdError = True, shouldClear = False\<rparr>, t)
                 | Some c \<Rightarrow> (\<lparr>cmdOutput = [Str c], cmdError = False, shouldClear = False\<rparr>, t)))
      else (\<lparr>cmdOutput = [Str (command @ '': command not found'')], cmdError = True,
             shouldClear = False\<rparr>, t))"

definition storeHooks :: "FileStore Hooks" where
  "storeHooks =
     \<lparr>listDirectory = (\<lambda>fs p u. None),
      readFile = storeReadFile,
      writeFile = storeWriteFile,
      contextResolvePath = (\<lambda>p. p),
      homePath = ''/home/alice'',
      currentUser = Some ''alice'',
      accentColor = ''#5755e4'',
      generateOutput = storeDispatch\<rparr>"

text \<open>A terminal of alice in her home directory, over a given store, with a line typed in.\<close>

definition storeTerminal :: "FileStore \<Rightarrow> string \<Rightarrow> FileStore Terminal" where
  "storeTerminal fs line =
     \<lparr>history = [], inputLine = line, commandHistory = [], historyIndex = - 1,
      sessionStack = [''alice''], currentPath = ''/home/alice'', fileSystem = fs\<rparr>"




definition richResult :: CommandResult where
  "richResult = \<lparr>cmdOutput = [Rich, Rich], cmdError = False, shouldClear = False\<rparr>"

definition outFile :: string where
  "outFile = ''/tmp/out.txt''"

definition oldStore :: "FileStore Terminal" where
  "oldStore = storeTerminal [(outFile, ''old'')] ''true > /tmp/out.txt''"


section \<open>Dispatch of a command and the acting user\<close>

text \<open>
  The operations of the file-system context as the terminal obtains them from
  \<open>useFileSystem\<close>, each with its optional last argument \<open>asUser\<close> (\<open>None\<close> when the
  caller leaves it out). The session operations \<open>login\<close>, \<open>logout\<close> and
  \<open>resetFileSystem\<close> and the \<open>groups\<close>, which take no acting user, are left out.
\<close>

record 'fs FileSystemContext =
  ctxCurrentUser :: "string option"
  ctxUsers :: "User list"
  ctxHomePath :: string
  ctxResolvePath :: "string \<Rightarrow> string"
  ctxListDirectory :: "'fs \<Rightarrow> string \<Rightarrow> string option \<Rightarrow> FileNode list option"
  ctxGetNodeAtPath :: "'fs \<Rightarrow> string \<Rightarrow> string option \<Rightarrow> FileNode option"
  ctxCreateFile :: "'fs \<Rightarrow> string \<Rightarrow> string \<Rightarrow> string option \<Rightarrow> string option \<Rightarrow> 'fs \<times> bool"
  ctxCreateDirectory :: "'fs \<Rightarrow> string \<Rightarrow> string \<Rightarrow> string option \<Rightarrow> 'fs \<times> bool"
  ctxMoveToTrash :: "'fs \<Rightarrow> string \<Rightarrow> string option \<Rightarrow> 'fs \<times> bool"
  ctxReadFile :: "'fs \<Rightarrow> string \<Rightarrow> string option \<Rightarrow> string option"
  ctxMoveNode :: "'fs \<Rightarrow> string \<Rightarrow> string \<Rightarrow> string option \<Rightarrow> 'fs \<times> bool"
  ctxWriteFile :: "'fs \<Rightarrow> string \<Rightarrow> string \<Rightarrow> string option \<Rightarrow> 'fs \<times> bool"
  ctxChmod :: "'fs \<Rightarrow> string \<Rightarrow> string \<Rightarrow> string option \<Rightarrow> 'fs \<times> bool"
  ctxChown :: "'fs \<Rightarrow> string \<Rightarrow> string \<Rightarrow> string option \<Rightarrow> string option \<Rightarrow> 'fs \<times> bool"

text \<open>
  The proxy that \<open>createScopedFileSystem(asUser)\<close> builds: the same operations with
  the acting user fixed. Its method \<open>as\<close> is \<open>createScopedFileSystem\<close> itself and is
  handed to a command beside the proxy.
\<close>

record 'fs ScopedFileSystem =
  sfCurrentUser :: "string option"
  sfUsers :: "User list"
  sfHomePath :: string
  sfResolvePath :: "string \<Rightarrow> string"
  sfListDirectory :: "'fs \<Rightarrow> string \<Rightarrow> FileNode list option"
  sfGetNodeAtPath :: "'fs \<Rightarrow> string \<Rightarrow> FileNode option"
  sfCreateFile :: "'fs \<Rightarrow> string \<Rightarrow> string \<Rightarrow> string option \<Rightarrow> 'fs \<times> bool"
  sfCreateDirectory :: "'fs \<Rightarrow> string \<Rightarrow> string \<Rightarrow> 'fs \<times> bool"
  sfMoveToTrash :: "'fs \<Rightarrow> string \<Rightarrow> 'fs \<times> bool"
  sfReadFile :: "'fs \<Rightarrow> string \<Rightarrow> string option"
  sfMoveNode :: "'fs \<Rightarrow> string \<Rightarrow> string \<Rightarrow> 'fs \<times> bool"
  sfWriteFile :: "'fs \<Rightarrow> string \<Rightarrow> string \<Rightarrow> 'fs \<times> bool"
  sfChmod :: "'fs \<Rightarrow> string \<Rightarrow> string \<Rightarrow> 'fs \<times> bool"
  sfChown :: "'fs \<Rightarrow> string \<Rightarrow> string \<Rightarrow> string option \<Rightarrow> 'fs \<times> bool"

definition createScopedFileSystem :: "'fs FileSystemContext \<Rightarrow> string \<Rightarrow> 'fs ScopedFileSystem" where
  "createScopedFileSystem ctx asUser =
     \<lparr>sfCurrentUser = ctxCurrentUser ctx,
      sfUsers = ctxUsers ctx,
      sfHomePath = ctxHomePath ctx,
      sfResolvePath = ctxResolvePath ctx,
      sfListDirectory = (\<lambda>fs p. ctxListDirectory ctx fs p (Some asUser)),
      sfGetNodeAtPath = (\<lambda>fs p. ctxGetNodeAtPath ctx fs p (Some asUser)),
      sfCreateFile = (\<lambda>fs p n c. ctxCreateFile ctx fs p n c (Some asUser)),
      sfCreateDirectory = (\<lambda>fs p n. ctxCreateDirectory ctx fs p n (Some asUser)),
      sfMoveToTrash = (\<lambda>fs p. ctxMoveToTrash ctx fs p (Some asUser)),
      sfReadFile = (\<lambda>fs p. ctxReadFile ctx fs p (Some asUser)),
      sfMoveNode = (\<lambda>fs from to. ctxMoveNode ctx fs from to (Some asUser)),
      sfWriteFile = (\<lambda>fs p c. ctxWriteFile ctx fs p c (Some asUser)),
      sfChmod = (\<lambda>fs p m. ctxChmod ctx fs p m (Some asUser)),
      sfChown = (\<lambda>fs p ow g. ctxChown ctx fs p ow g (Some asUser))\<rparr>"

text \<open>
  What \<open>execute\<close> of a command receives. The hooks \<open>setCurrentPath\<close>,
  \<open>spawnSession\<close> and \<open>closeSession\<close> and the changes of the file system are the
  command's effects on the terminal state: a command maps the terminal it finds to
  its result and the terminal it leaves.
\<close>

record 'fs CommandContext =
  ccArgs :: "string list"
  ccFileSystem :: "'fs ScopedFileSystem"
  ccAs :: "string \<Rightarrow> 'fs ScopedFileSystem"
  ccCurrentPath :: string
  ccResolvePath :: "string \<Rightarrow> string"
  ccAllCommands :: "string list"
  ccTerminalUser :: string

type_synonym 'fs TerminalCommand =
  "'fs CommandContext \<Rightarrow> 'fs Terminal \<Rightarrow> CommandResult \<times> 'fs Terminal"

text \<open>The command registry (\<open>utils/terminal/registry\<close>), not part of the sources at hand.\<close>

record 'fs CommandRegistry =
  getCommand :: "string \<Rightarrow> 'fs TerminalCommand option"
  getAllCommands :: "string list"

definition PATH :: "string list" where
  "PATH = [''/bin'', ''/usr/bin'']"

definition isFileNode :: "FileNode option \<Rightarrow> bool" where
  "isFileNode node = (case node of None \<Rightarrow> False | Some f \<Rightarrow> nodeType f = File)"

text \<open>
  The search for an executable file when the registry has no such command: the
  resolved path of a name with a slash, or the first directory of \<open>PATH\<close> holding
  the name. \<open>getNodeAtPath\<close> is called without an acting user.
\<close>

definition findExecutable :: "'fs FileSystemContext \<Rightarrow> (string \<Rightarrow> string) \<Rightarrow> 'fs \<Rightarrow> string
    \<Rightarrow> string option" where
  "findExecutable ctx resolve fs cmd =
     (if includesStr cmd ''/''
      then (let resolved = resolve cmd
            in if isFileNode (ctxGetNodeAtPath ctx fs resolved None) then Some resolved else None)
      else find (\<lambda>checkPath. isFileNode (ctxGetNodeAtPath ctx fs checkPath None))
             (map (\<lambda>dir. (if dir = ''/'' then [] else dir) @ ''/'' @ cmd) PATH))"

definition textResult :: "string \<Rightarrow> bool \<Rightarrow> CommandResult" where
  "textResult msg err = \<lparr>cmdOutput = [Str msg], cmdError = err, shouldClear = False\<rparr>"

text \<open>
  \<open>generateOutput\<close>: a command of the registry runs on the proxy scoped to the
  terminal's effective user; otherwise an executable file is looked for and read,
  both without an acting user, and a file starting with \<open>#!app\<close> launches the app
  when the terminal was given \<open>onLaunchApp\<close> (the launch itself happens in the
  window manager). \<open>resolve\<close> is the terminal's \<open>resolvePath\<close>.
\<close>

definition generateOutputOf :: "'fs FileSystemContext \<Rightarrow> 'fs CommandRegistry \<Rightarrow> bool
    \<Rightarrow> (string \<Rightarrow> string) \<Rightarrow> string \<Rightarrow> string list \<Rightarrow> 'fs Terminal
    \<Rightarrow> CommandResult \<times> 'fs Terminal" where
  "generateOutputOf ctx registry onLaunchApp resolve command args t =
     (case getCommand registry command of
        Some terminalCommand \<Rightarrow>
          (let user = activeTerminalUser (sessionStack t) (ctxCurrentUser ctx)
           in terminalCommand
                \<lparr>ccArgs = args,
                 ccFileSystem = createScopedFileSystem ctx user,
                 ccAs = createScopedFileSystem ctx,
                 ccCurrentPath = currentPath t,
                 ccResolvePath = resolve,
                 ccAllCommands = getAllCommands registry,
                 ccTerminalUser = user\<rparr> t)
      | None \<Rightarrow>
          (case findExecutable ctx resolve (fileSystem t) command of
             Some foundPath \<Rightarrow>
               (case ctxReadFile ctx (fileSystem t) foundPath None of
                  Some fileContent \<Rightarrow>
                    (if fileContent \<noteq> [] \<and> startsWith fileContent ''#!app ''
                     then (let appId = trim (drop 6 fileContent)
                           in if onLaunchApp
                              then (textResult (''Launched '' @ appId) False, t)
                              else (textResult (''Cannot launch '' @ appId) True, t))
                     else (textResult
                             (command
                              @ '': command not found (binary execution not fully simmed)'')
                             True, t))
                | None \<Rightarrow>
                    (textResult
                       (command @ '': command not found (binary execution not fully simmed)'')
                       True, t))
           | None \<Rightarrow> (textResult (command @ '': command not found'') True, t)))"

text \<open>
  The terminal's hooks over a file-system context: the redirection step reads and
  writes without an acting user, glob expansion lists the directory as the effective
  user. The terminal's \<open>resolvePath\<close> reads only the context's \<open>resolvePath\<close> and
  the home path.
\<close>

definition terminalHooks :: "'fs FileSystemContext \<Rightarrow> string \<Rightarrow> 'fs CommandRegistry \<Rightarrow> bool
    \<Rightarrow> 'fs Hooks" where
  "terminalHooks ctx accent registry onLaunchApp =
     (let base = \<lparr>listDirectory = (\<lambda>fs p u. ctxListDirectory ctx fs p (Some u)),
                  readFile = (\<lambda>fs p. ctxReadFile ctx fs p None),
                  writeFile = (\<lambda>fs p c. ctxWriteFile ctx fs p c None),
                  contextResolvePath = ctxResolvePath ctx,
                  homePath = ctxHomePath ctx,
                  currentUser = ctxCurrentUser ctx,
                  accentColor = accent,
                  generateOutput = (\<lambda>command args t. (textResult [] False, t))\<rparr>
      in base\<lparr>generateOutput :=
                (\<lambda>command args t.
                   generateOutputOf ctx registry onLaunchApp
                     (resolvePath base (currentPath t)) command args t)\<rparr>)"

text \<open>
  The commands \<open>su\<close> and \<open>whoami\<close> as entries of the registry. \<open>su\<close> takes the
  users from the proxy and pushes onto the terminal's session stack.
\<close>

definition suCommand :: "'fs TerminalCommand" where
  "suCommand cc t =
     (let (result, stack') = su (ccArgs cc) (sfUsers (ccFileSystem cc)) (ccTerminalUser cc)
                               (sessionStack t)
      in (result, t\<lparr>sessionStack := stack'\<rparr>))"

definition whoamiCommand :: "'fs TerminalCommand" where
  "whoamiCommand cc t =
     (textResult
        (if ccTerminalUser cc \<noteq> [] then ccTerminalUser cc
         else (case sfCurrentUser (ccFileSystem cc) of
                 None \<Rightarrow> ''nobody''
               | Some u \<Rightarrow> (if u = [] then ''nobody'' else u)))
        False, t)"

text \<open>
  Modelled from the spec: \<open>echo\<close> and \<open>cat\<close> of the registry, which is not part of the
  sources at hand, as the spec's redirection example uses them: \<open>echo\<close> prints its
  arguments as one line, \<open>cat\<close> prints the content of the file its argument names,
  read through the proxy it is given.
\<close>

definition echoCommand :: "'fs TerminalCommand" where
  "echoCommand cc t = (textResult (joinStr (ccArgs cc) '' '') False, t)"

definition catCommand :: "'fs TerminalCommand" where
  "catCommand cc t =
     (case ccArgs cc of
        [] \<Rightarrow> (textResult ''cat: missing operand'' True, t)
      | a # _ \<Rightarrow>
          (case sfReadFile (ccFileSystem cc) (fileSystem t) (ccResolvePath cc a) of
             None \<Rightarrow> (textResult (''cat: '' @ a @ '': No such file or directory'') True, t)
           | Some c \<Rightarrow> (textResult c False, t)))"

definition exampleRegistry :: "'fs CommandRegistry" where
  "exampleRegistry =
     \<lparr>getCommand = (\<lambda>name.
        if name = ''su'' then Some suCommand
        else if name = ''whoami'' then Some whoamiCommand
        else if name = ''echo'' then Some echoCommand
        else if name = ''cat'' then Some catCommand
        else None),
      getAllCommands = [''su'', ''whoami'', ''echo'', ''cat'']\<rparr>"

text \<open>
  Modelled from the spec: the file-system context is not part of the sources at
  hand. A store of files, each with its absolute path, its owner and its content,
  stands for it. Every operation takes "an acting-user identity (defaulting to the
  session's current user)", here alice. Of the permission model the owner class is
  kept, with mode \<open>rw-------\<close> on every file: the owner and root may read and write
  a file, nobody else. Only looking up, reading and writing are offered.
\<close>

type_synonym OwnedStore = "(string \<times> string \<times> string) list"

definition ownedActing :: "string option \<Rightarrow> string" where
  "ownedActing asUser = (case asUser of None \<Rightarrow> ''alice'' | Some u \<Rightarrow> u)"

definition ownedAccess :: "OwnedStore \<Rightarrow> string \<Rightarrow> string option \<Rightarrow> string option" where
  "ownedAccess fs p asUser =
     (case find (\<lambda>(q, ow, c). q = p) fs of
        None \<Rightarrow> None
      | Some (q, ow, c) \<Rightarrow>
          (if ownedActing asUser = ''root'' \<or> ownedActing asUser = ow then Some c else None))"

definition ownedWrite :: "OwnedStore \<Rightarrow> string \<Rightarrow> string \<Rightarrow> string option \<Rightarrow> OwnedStore \<times> bool" where
  "ownedWrite fs p c asUser =
     (case ownedAccess fs p asUser of
        None \<Rightarrow> (fs, False)
      | Some old \<Rightarrow> (map (\<lambda>(q, ow, c'). if q = p then (q, ow, c) else (q, ow, c')) fs, True))"

definition ownedNode :: "OwnedStore \<Rightarrow> string \<Rightarrow> string option \<Rightarrow> FileNode option" where
  "ownedNode fs p asUser =
     (case ownedAccess fs p asUser of
        None \<Rightarrow> None
      | Some c \<Rightarrow> Some (FileNode p (last (splitStr p ''/'')) File (Some c) None))"

definition ownedContext :: "OwnedStore FileSystemContext" where
  "ownedContext =
     \<lparr>ctxCurrentUser = Some ''alice'',
      ctxUsers = exampleUsers,
      ctxHomePath = ''/home/alice'',
      ctxResolvePath = (\<lambda>p. p),
      ctxListDirectory = (\<lambda>fs p u. None),
      ctxGetNodeAtPath = ownedNode,
      ctxCreateFile = (\<lambda>fs p n c u. (fs, False)),
      ctxCreateDirectory = (\<lambda>fs p n u. (fs, False)),
      ctxMoveToTrash = (\<lambda>fs p u. (fs, False)),
      ctxReadFile = ownedAccess,
      ctxMoveNode = (\<lambda>fs from to u. (fs, False)),
      ctxWriteFile = ownedWrite,
      ctxChmod = (\<lambda>fs p m u. (fs, False)),
      ctxChown = (\<lambda>fs p ow g u. (fs, False))\<rparr>"

definition ownedHooks :: "OwnedStore Hooks" where
  "ownedHooks = terminalHooks ownedContext ''#5755e4'' exampleRegistry True"

text \<open>
  Alice, logged in, at a terminal in her home directory; bob and root own a file
  each, and alice one.
\<close>

definition ownedFiles :: OwnedStore where
  "ownedFiles =
     [(''/home/bob/todo.txt'', ''bob'', ''buy milk''),
      (''/home/alice/notes.txt'', ''alice'', ''draft''),
      (''/bin/paint'', ''root'', ''#!app paint'')]"

definition aliceTerminal :: "OwnedStore Terminal" where
  "aliceTerminal =
     \<lparr>history = [], inputLine = [], commandHistory = [], historyIndex = - 1,
      sessionStack = [''alice''], currentPath = ''/home/alice'', fileSystem = ownedFiles\<rparr>"

text \<open>Typing a line and submitting it, over given hooks.\<close>

definition submitWith :: "'fs Hooks \<Rightarrow> 'fs Terminal \<Rightarrow> string \<Rightarrow> 'fs Terminal" where
  "submitWith hk t line =
     (case executeCommand hk (t\<lparr>inputLine := line\<rparr>) of
        Done t' \<Rightarrow> t'
      | Rejected t' \<Rightarrow> t'
      | NotModelled \<Rightarrow> t)"

definition asBob :: "OwnedStore Terminal" where
  "asBob = submitWith ownedHooks aliceTerminal ''su bob secret''"

definition asRoot :: "OwnedStore Terminal" where
  "asRoot = submitWith ownedHooks aliceTerminal ''su root admin''"

section \<open>Desktop icons: dropping an icon\<close>

text \<open>
  Pixel coordinates are numbers of the host language; they are modelled as real
  numbers, so \<open>Math.sqrt\<close> is the real square root. A desktop icon has the fields
  \<open>id\<close>, \<open>name\<close>, \<open>type\<close>, \<open>position\<close> and \<open>isEmpty\<close>, here with the prefix
  \<open>icon\<close>.
\<close>

record GridPosition =
  col :: int
  row :: int

datatype IconType = Folder | FileIcon

record DesktopIcon =
  iconId :: string
  iconName :: string
  iconType :: IconType
  iconPosition :: "real \<times> real"
  iconIsEmpty :: "bool option"

text \<open>
  The grid utilities (\<open>utils/gridSystem\<close>) are not part of the sources at hand; the
  desktop takes them as they come, over any type of grid configuration.
\<close>

record 'cfg GridApi =
  getGridConfig :: "real \<Rightarrow> real \<Rightarrow> 'cfg"
  pixelToGrid :: "real \<Rightarrow> real \<Rightarrow> 'cfg \<Rightarrow> GridPosition"
  gridToPixel :: "GridPosition \<Rightarrow> 'cfg \<Rightarrow> real \<times> real"
  gridPosToKey :: "GridPosition \<Rightarrow> string"
  rearrangeGrid :: "string list \<Rightarrow> (string \<rightharpoonup> GridPosition) \<Rightarrow> string \<Rightarrow> GridPosition
                      \<Rightarrow> real \<Rightarrow> 'cfg \<Rightarrow> (string \<rightharpoonup> GridPosition)"

text \<open>
  The two operations of the file-system context the drop handler calls;
  \<open>moveNodeById\<close> returns the new file system and its boolean result (which the
  handler ignores).
\<close>

record 'fs DesktopHooks =
  fsResolvePath :: "string \<Rightarrow> string"
  moveNodeById :: "'fs \<Rightarrow> string \<Rightarrow> string \<Rightarrow> 'fs \<times> bool"

text \<open>
  The state the handler reads and writes: the derived icons, the stored grid
  positions, the tracked window size and the browser's \<open>window.innerWidth\<close> and
  \<open>window.innerHeight\<close>, each as \<open>(width, height)\<close>, and the file system.
\<close>

record 'fs Desktop =
  desktopIcons :: "DesktopIcon list"
  iconGridPositions :: "string \<rightharpoonup> GridPosition"
  windowSize :: "real \<times> real"
  innerSize :: "real \<times> real"
  desktopFileSystem :: 'fs

text \<open>Which collaborator a drop ended in.\<close>

datatype DropAction =
    MovedIntoFolder string string
  | Rearranged
  | Placed

text \<open>\<open>conflictingIcon\<close>: the first other icon whose stored cell is the target cell.\<close>

definition conflictingIcon :: "'cfg GridApi \<Rightarrow> 'fs Desktop \<Rightarrow> string \<Rightarrow> real \<times> real
    \<Rightarrow> DesktopIcon option" where
  "conflictingIcon api d i pos =
     (let config = getGridConfig api (fst (innerSize d)) (snd (innerSize d));
          targetGridPos = pixelToGrid api (fst pos) (snd pos) config;
          targetCellKey = gridPosToKey api targetGridPos
      in find (\<lambda>icon.
                 iconId icon \<noteq> i
                 \<and> (case iconGridPositions d (iconId icon) of
                      None \<Rightarrow> False
                    | Some iconGridPos \<Rightarrow> gridPosToKey api iconGridPos = targetCellKey))
              (desktopIcons d))"

text \<open>
  The distance between the centre of the occupant's icon graphic and the centre of
  the dragged one, each 50 pixels right of and below its position.
\<close>

definition centerDistance :: "real \<times> real \<Rightarrow> real \<times> real \<Rightarrow> real" where
  "centerDistance targetPixelPos pos =
     (let dx = (fst targetPixelPos + 50) - (fst pos + 50);
          dy = (snd targetPixelPos + 50) - (snd pos + 50)
      in sqrt (dx * dx + dy * dy))"

text \<open>
  \<open>updateIconPosition\<close>: the new desktop state and the collaborator that was called.
  An occupant found by \<open>conflictingIcon\<close> has a stored position, so the \<open>None\<close>
  branch on it is not reached.
\<close>

definition updateIconPosition :: "'cfg GridApi \<Rightarrow> 'fs DesktopHooks \<Rightarrow> 'fs Desktop \<Rightarrow> string
    \<Rightarrow> real \<times> real \<Rightarrow> 'fs Desktop \<times> DropAction" where
  "updateIconPosition api hk d i pos =
     (let config = getGridConfig api (fst (innerSize d)) (snd (innerSize d));
          targetGridPos = pixelToGrid api (fst pos) (snd pos) config;
          rearranged =
            (d\<lparr>iconGridPositions :=
                 rearrangeGrid api (map iconId (desktopIcons d)) (iconGridPositions d) i
                   targetGridPos (snd (windowSize d)) config\<rparr>,
             Rearranged)
      in (case conflictingIcon api d i pos of
            None \<Rightarrow>
              (d\<lparr>iconGridPositions := (iconGridPositions d)(i \<mapsto> targetGridPos)\<rparr>, Placed)
          | Some occupant \<Rightarrow>
              (if iconType occupant = Folder
               then (case iconGridPositions d (iconId occupant) of
                       None \<Rightarrow> rearranged
                     | Some occupantPos \<Rightarrow>
                         (if centerDistance (gridToPixel api occupantPos config) pos < 35
                          then (case find (\<lambda>icon. iconId icon = i) (desktopIcons d) of
                                  None \<Rightarrow> rearranged
                                | Some sourceIcon \<Rightarrow>
                                    (let destParentPath =
                                           fsResolvePath hk (''~/Desktop/'' @ iconName occupant)
                                     in (d\<lparr>desktopFileSystem :=
                                              fst (moveNodeById hk (desktopFileSystem d) i
                                                     destParentPath),
                                            iconGridPositions :=
                                              (iconGridPositions d)(i := None)\<rparr>,
                                         MovedIntoFolder i destParentPath)))
                          else rearranged))
               else rearranged)))"

text \<open>
  A grid of 100-pixel cells for concrete runs, with a rearrangement that only moves
  the dragged icon, a file system that records the moves it is asked for, and a
  desktop with a folder in cell (0, 0) and a file in cell (1, 0).
\<close>

definition exampleGrid :: "unit GridApi" where
  "exampleGrid =
     \<lparr>getGridConfig = (\<lambda>w h. ()),
      pixelToGrid = (\<lambda>px py c. \<lparr>col = \<lfloor>px / 100\<rfloor>, row = \<lfloor>py / 100\<rfloor>\<rparr>),
      gridToPixel = (\<lambda>g c. (100 * real_of_int (col g), 100 * real_of_int (row g))),
      gridPosToKey = (\<lambda>g. showNat (nat (col g)) @ '','' @ showNat (nat (row g))),
      rearrangeGrid = (\<lambda>ids positions i target h c. positions(i \<mapsto> target))\<rparr>"

definition exampleDesktopHooks :: "(string \<times> string) list DesktopHooks" where
  "exampleDesktopHooks =
     \<lparr>fsResolvePath = (\<lambda>p. ''/home/alice'' @ drop 1 p),
      moveNodeById = (\<lambda>fs i dest. (fs @ [(i, dest)], True))\<rparr>"

definition exampleDesktop :: "(string \<times> string) list Desktop" where
  "exampleDesktop =
     \<lparr>desktopIcons =
        [\<lparr>iconId = ''n1'', iconName = ''Projects'', iconType = Folder,
          iconPosition = (0, 0), iconIsEmpty = Some True\<rparr>,
         \<lparr>iconId = ''n2'', iconName = ''notes.txt'', iconType = FileIcon,
          iconPosition = (100, 0), iconIsEmpty = None\<rparr>],
      iconGridPositions =
        [''n1'' \<mapsto> \<lparr>col = 0, row = 0\<rparr>, ''n2'' \<mapsto> \<lparr>col = 1, row = 0\<rparr>],
      windowSize = (1280, 800),
      innerSize = (1280, 800),
      desktopFileSystem = []\<rparr>"

text \<open>
  The words of the drop rule, stated apart from the handler. The centre of an
  icon's graphic lies 50 pixels right of and below the icon's position. The distance
  of two points is the Euclidean one. An icon occupies a cell against the dragged
  icon \<open>i\<close> when it is another icon and the cell is its stored grid position.
\<close>

definition iconCenter :: "real \<times> real \<Rightarrow> real \<times> real" where
  "iconCenter p = (fst p + 50, snd p + 50)"

definition euclideanDistance :: "real \<times> real \<Rightarrow> real \<times> real \<Rightarrow> real" where
  "euclideanDistance a b = sqrt ((fst a - fst b)\<^sup>2 + (snd a - snd b)\<^sup>2)"

definition occupiesCell :: "'fs Desktop \<Rightarrow> string \<Rightarrow> GridPosition \<Rightarrow> DesktopIcon \<Rightarrow> bool" where
  "occupiesCell d i cell icon =
     (iconId icon \<noteq> i \<and> iconGridPositions d (iconId icon) = Some cell)"

section \<open>Session stack: pops never leave the base session\<close>

lemma sessionStep_keeps_base:
  "st \<noteq> [] \<Longrightarrow> sessionStep st op \<noteq> [] \<and> hd (sessionStep st op) = hd st"
proof (cases op)
  case (Push u)
  assume "st \<noteq> []"
  then show ?thesis using Push by (simp add: pushSession_def)
next
  case Pop
  assume ne: "st \<noteq> []"
  show ?thesis
  proof (cases st)
    case Nil
    with ne show ?thesis by simp
  next
    case (Cons a rest)
    then show ?thesis using Pop by (cases rest) (simp_all add: closeSession_def)
  qed
qed

lemma sessionRun_keeps_base:
  "st \<noteq> [] \<Longrightarrow> sessionRun st ops \<noteq> [] \<and> hd (sessionRun st ops) = hd st"
  unfolding sessionRun_def
proof (induction ops arbitrary: st)
  case Nil
  then show ?case by simp
next
  case (Cons op ops)
  from sessionStep_keeps_base [OF Cons.prems, of op]
  have step: "sessionStep st op \<noteq> []" "hd (sessionStep st op) = hd st" by simp_all
  from Cons.IH [OF step(1)] step(2) show ?case by simp
qed

text \<open>
  C7. Popping the session stack when exactly one entry remains leaves it unchanged;
  hence, from the initialised base session \<open>[base]\<close>, after any sequence of pushes and
  pops the stack is non-empty and its bottom entry is still the base username.
\<close>

theorem C7_pop_never_leaves_base:
  "closeSession [base] = [base]
   \<and> sessionRun [base] ops \<noteq> []
   \<and> hd (sessionRun [base] ops) = base"
proof -
  have "closeSession [base] = [base]" by (simp add: closeSession_def)
  moreover have "sessionRun [base] ops \<noteq> [] \<and> hd (sessionRun [base] ops) = hd [base]"
    by (rule sessionRun_keeps_base) simp
  ultimately show ?thesis by simp
qed

section \<open>Window manager: z-order\<close>

lemma topZIndex_wmStep: "topZIndex (wmStep wm op) = topZIndex wm + 1"
  by (cases op) (simp_all add: openWindow_def focusWindow_def Let_def split: prod.splits)

lemma belowCounter_openWindow:
  "belowCounter wm \<Longrightarrow> belowCounter (openWindow wm ty d now)"
  by (auto simp: belowCounter_def openWindow_def Let_def list_all_iff split: prod.splits)

lemma belowCounter_focusWindow:
  "belowCounter wm \<Longrightarrow> belowCounter (focusWindow wm i)"
  by (auto simp: belowCounter_def focusWindow_def Let_def list_all_iff)

lemma belowCounter_wmStep: "belowCounter wm \<Longrightarrow> belowCounter (wmStep wm op)"
  by (cases op) (simp_all add: belowCounter_openWindow belowCounter_focusWindow)

lemma belowCounter_wmRun: "belowCounter wm \<Longrightarrow> belowCounter (wmRun wm ops)"
  unfolding wmRun_def
  by (induction ops arbitrary: wm) (simp_all add: belowCounter_wmStep)

lemma assignedZ_above: "z \<in> set (assignedZ wm ops) \<Longrightarrow> topZIndex wm < z"
proof (induction ops arbitrary: wm)
  case Nil
  then show ?case by simp
next
  case (Cons op ops)
  then show ?case
    using topZIndex_wmStep [of wm op] by fastforce
qed

lemma assignedZ_increasing: "sorted_wrt (<) (topZIndex wm # assignedZ wm ops)"
proof (induction ops arbitrary: wm)
  case Nil
  then show ?case by simp
next
  case (Cons op ops)
  have "sorted_wrt (<) (topZIndex (wmStep wm op) # assignedZ (wmStep wm op) ops)"
    by (rule Cons.IH)
  moreover have "topZIndex wm < topZIndex (wmStep wm op)"
    by (simp add: topZIndex_wmStep)
  moreover have "\<forall>z \<in> set (assignedZ (wmStep wm op) ops). topZIndex wm < z"
    using assignedZ_above [of _ "wmStep wm op" ops] topZIndex_wmStep [of wm op] by fastforce
  ultimately show ?case by simp
qed

lemma openWindow_topmost:
  assumes "belowCounter wm"
  shows "list_all (\<lambda>w. zIndex w < topZIndex (openWindow wm ty d now)) (windows wm)
    \<and> zIndex (last (windows (openWindow wm ty d now))) = topZIndex (openWindow wm ty d now)
    \<and> list_all (\<lambda>w. zIndex w < topZIndex (openWindow wm ty d now))
         (butlast (windows (openWindow wm ty d now)))"
  using assms
  by (auto simp: belowCounter_def openWindow_def Let_def list_all_iff split: prod.splits)

lemma focusWindow_topmost:
  assumes "belowCounter wm"
  shows "list_all (\<lambda>w. zIndex w < topZIndex (focusWindow wm i)) (windows wm)
    \<and> list_all (\<lambda>w. if wid w = i
                     then zIndex w = topZIndex (focusWindow wm i) \<and> \<not> isMinimized w
                     else zIndex w < topZIndex (focusWindow wm i))
         (windows (focusWindow wm i))"
  using assms
  by (auto simp: belowCounter_def focusWindow_def Let_def list_all_iff)

text \<open>
  C1. Z-index assignment is monotonic. From any state in which no window lies above
  the counter (the initial state, and every restored one), for every sequence \<open>ops\<close>
  of open and focus calls the z-indices assigned by the calls are strictly increasing
  and all above the starting counter, so no z-index is reused or decremented. A
  further \<open>openWindow\<close> gives the new window a z-index strictly above every window
  that was there before, and it is strictly above all other windows afterwards. A
  further \<open>focusWindow i\<close> gives the window with id \<open>i\<close> a z-index strictly above
  every window that was there before, clears its minimized flag, and leaves every
  window with another id strictly below it. Windows are told apart by their id, as
  \<open>focusWindow\<close> does.
\<close>

theorem C1_zindex_monotonic:
  assumes "belowCounter wm"
  shows "sorted_wrt (<) (topZIndex wm # assignedZ wm ops)
    \<and> (let before = wmRun wm ops; after = openWindow before ty d now
       in list_all (\<lambda>w. zIndex w < topZIndex after) (windows before)
          \<and> zIndex (last (windows after)) = topZIndex after
          \<and> list_all (\<lambda>w. zIndex w < topZIndex after) (butlast (windows after)))
    \<and> (let before = wmRun wm ops; after = focusWindow before i
       in list_all (\<lambda>w. zIndex w < topZIndex after) (windows before)
          \<and> list_all (\<lambda>w. if wid w = i
                           then zIndex w = topZIndex after \<and> \<not> isMinimized w
                           else zIndex w < topZIndex after) (windows after))"
proof -
  have inv: "belowCounter (wmRun wm ops)"
    using assms by (rule belowCounter_wmRun)
  show ?thesis
    unfolding Let_def
    using assignedZ_increasing [of wm ops]
      openWindow_topmost [OF inv, of ty d now] focusWindow_topmost [OF inv, of i]
    by blast
qed

theorem C1_zindex_monotonic_witness:
  "belowCounter initialWM
   \<and> sorted_wrt (<) (topZIndex initialWM
        # assignedZ initialWM [OpenWindow ''finder'' None 1, OpenWindow ''music'' None 2,
                               FocusWindow ''finder-1''])
   \<and> map zIndex (windows (wmRun initialWM
        [OpenWindow ''finder'' None 1, OpenWindow ''music'' None 2, FocusWindow ''finder-1'']))
      = [103, 102]"
proof -
  have h: "belowCounter initialWM" by (simp add: belowCounter_def initialWM_def)
  have v: "map zIndex (windows (wmRun initialWM
        [OpenWindow ''finder'' None 1, OpenWindow ''music'' None 2, FocusWindow ''finder-1'']))
      = [103, 102]"
    by code_simp
  show ?thesis
    using h v C1_zindex_monotonic [OF h, of "[OpenWindow ''finder'' None 1, OpenWindow ''music'' None 2,
                               FocusWindow ''finder-1'']"]
    by simp
qed

lemma foldl_max_Max: "foldl max (a::int) zs = Max (insert a (set zs))"
proof -
  have flip: "(\<lambda>x s. max s x) = (max :: int \<Rightarrow> int \<Rightarrow> int)"
    by (intro ext) (rule max.commute)
  have "foldl max a zs = fold max zs a"
    by (simp only: foldl_conv_fold flip)
  also have "\<dots> = Max (set (a # zs))"
    by (simp only: Max.set_eq_fold)
  finally show ?thesis by (simp only: list.set)
qed

lemma zIndex_restoreWindow: "zIndex (restoreWindow session) = zIndex session"
  by (simp add: restoreWindow_def)

lemma wid_restoreWindow: "wid (restoreWindow session) = wid session"
  by (simp add: restoreWindow_def)

lemma map_zIndex_restoreWindow: "map zIndex (map restoreWindow sessions) = map zIndex sessions"
  by (induction sessions) (simp_all add: zIndex_restoreWindow)

lemma topZIndex_restoreWindows:
  "topZIndex (restoreWindows wm (Sessions sessions)) = Max (insert 100 (zIndex ` set sessions))"
proof -
  have "topZIndex (restoreWindows wm (Sessions sessions))
      = foldl max 100 (map zIndex (map restoreWindow sessions))"
    by (simp add: restoreWindows_def Let_def)
  also have "\<dots> = foldl max 100 (map zIndex sessions)"
    by (simp only: map_zIndex_restoreWindow)
  also have "\<dots> = Max (insert 100 (zIndex ` set sessions))"
    by (simp add: foldl_max_Max)
  finally show ?thesis .
qed

lemma topZIndex_openWindow: "topZIndex (openWindow wm ty d now) = topZIndex wm + 1"
  by (simp add: openWindow_def Let_def split: prod.splits)

lemma topZIndex_focusWindow: "topZIndex (focusWindow wm i) = topZIndex wm + 1"
  by (simp add: focusWindow_def Let_def)

lemma zIndex_last_openWindow:
  "zIndex (last (windows (openWindow wm ty d now))) = topZIndex wm + 1"
  by (simp add: openWindow_def Let_def split: prod.splits)

lemma focus_map_raises:
  assumes "list_all (\<lambda>w. zIndex w < z) ws"
  shows "list_all (\<lambda>w. if wid w = i then zIndex w = z \<and> \<not> isMinimized w else zIndex w < z)
     (map (\<lambda>w. if wid w = i then w\<lparr>zIndex := z, isMinimized := False\<rparr> else w) ws)"
  using assms by (induction ws) simp_all

lemma windows_restoreWindows:
  "windows (restoreWindows wm (Sessions sessions)) = map restoreWindow sessions"
  by (simp add: restoreWindows_def Let_def)

lemma belowCounter_restoreWindows: "belowCounter (restoreWindows wm (Sessions sessions))"
proof -
  let ?m = "Max (insert 100 (zIndex ` set sessions))"
  have "zIndex (restoreWindow x) \<le> ?m" if "x \<in> set sessions" for x
  proof -
    have "zIndex x \<in> insert 100 (zIndex ` set sessions)" using that by simp
    then have "zIndex x \<le> ?m" by (intro Max_ge) simp_all
    then show ?thesis by (simp only: zIndex_restoreWindow)
  qed
  then have "list_all (\<lambda>w. zIndex w \<le> ?m) (map restoreWindow sessions)"
    by (simp add: list_all_iff)
  then show ?thesis
    unfolding belowCounter_def
    by (simp only: windows_restoreWindows topZIndex_restoreWindows)
qed

lemma focusWindow_raises:
  assumes "belowCounter wm"
  shows "list_all (\<lambda>w. if wid w = i then zIndex w = topZIndex wm + 1 \<and> \<not> isMinimized w
                        else zIndex w < topZIndex wm + 1)
           (windows (focusWindow wm i))"
proof -
  have "list_all (\<lambda>w. zIndex w < topZIndex wm + 1) (windows wm)"
    using assms by (simp add: belowCounter_def list_all_iff)
  from focus_map_raises [OF this, of i] show ?thesis
    by (simp add: focusWindow_def Let_def)
qed

lemma Max_example:
  assumes "map zIndex sessions = [100, 105, 103]"
  shows "Max (insert 100 (zIndex ` set sessions)) = 105"
proof -
  have "zIndex ` set sessions = set (map zIndex sessions)" by simp
  also have "\<dots> = {100, 105, 103}" by (simp only: assms) simp
  finally show ?thesis by simp
qed

text \<open>
  C2. After a stored session list is restored, the counter is the maximum of the
  restored z-indices and 100; the next \<open>openWindow\<close> gives its window exactly one
  more than that maximum, and so does the next \<open>focusWindow\<close> for the window it
  raises (all others stay below). For stored z-indices 100, 105, 103 the counter is
  105 and the next assigned z-index is 106.
\<close>

theorem C2_restore_recomputes_top:
  "topZIndex (restoreWindows wm (Sessions sessions))
     = Max (insert 100 (zIndex ` set sessions))
   \<and> zIndex (last (windows (openWindow (restoreWindows wm (Sessions sessions)) ty d now)))
     = Max (insert 100 (zIndex ` set sessions)) + 1
   \<and> list_all (\<lambda>w. if wid w = i
                    then zIndex w = Max (insert 100 (zIndex ` set sessions)) + 1
                         \<and> \<not> isMinimized w
                    else zIndex w < Max (insert 100 (zIndex ` set sessions)) + 1)
       (windows (focusWindow (restoreWindows wm (Sessions sessions)) i))
   \<and> (map zIndex sessions = [100, 105, 103] \<longrightarrow>
        topZIndex (restoreWindows wm (Sessions sessions)) = 105
        \<and> zIndex (last (windows (openWindow (restoreWindows wm (Sessions sessions)) ty d now)))
          = 106
        \<and> topZIndex (focusWindow (restoreWindows wm (Sessions sessions)) i) = 106)"
proof -
  let ?r = "restoreWindows wm (Sessions sessions)"
  let ?m = "Max (insert 100 (zIndex ` set sessions))"
  have t: "topZIndex ?r = ?m" by (rule topZIndex_restoreWindows)
  have o: "zIndex (last (windows (openWindow ?r ty d now))) = ?m + 1"
    using zIndex_last_openWindow [of ?r ty d now] by (simp only: t)
  have f: "list_all (\<lambda>w. if wid w = i then zIndex w = ?m + 1 \<and> \<not> isMinimized w
                          else zIndex w < ?m + 1) (windows (focusWindow ?r i))"
    using focusWindow_raises [OF belowCounter_restoreWindows [of wm sessions], of i]
    by (simp only: t)
  have ft: "topZIndex (focusWindow ?r i) = ?m + 1"
    using topZIndex_focusWindow [of ?r i] by (simp only: t)
  have e: "topZIndex ?r = 105 \<and> zIndex (last (windows (openWindow ?r ty d now))) = 106
        \<and> topZIndex (focusWindow ?r i) = 106"
    if "map zIndex sessions = [100, 105, 103]"
    using t o ft by (simp only: Max_example [OF that]) simp
  from t o f e show ?thesis by blast
qed

theorem C2_restore_recomputes_top_witness:
  "map zIndex [exampleSession ''finder-1'' 100, exampleSession ''finder-2'' 105,
               exampleSession ''finder-3'' 103] = [100, 105, 103]
   \<and> zIndex (last (windows (openWindow
        (restoreWindows initialWM
           (Sessions [exampleSession ''finder-1'' 100, exampleSession ''finder-2'' 105,
                      exampleSession ''finder-3'' 103]))
        ''music'' None 7))) = 106
   \<and> map zIndex (windows (focusWindow
        (restoreWindows initialWM
           (Sessions [exampleSession ''finder-1'' 100, exampleSession ''finder-2'' 105,
                      exampleSession ''finder-3'' 103]))
        ''finder-1'')) = [106, 105, 103]"
proof -
  have h: "map zIndex [exampleSession ''finder-1'' 100, exampleSession ''finder-2'' 105,
               exampleSession ''finder-3'' 103] = [100, 105, 103]"
    by (simp add: exampleSession_def)
  have v: "map zIndex (windows (focusWindow
        (restoreWindows initialWM
           (Sessions [exampleSession ''finder-1'' 100, exampleSession ''finder-2'' 105,
                      exampleSession ''finder-3'' 103]))
        ''finder-1'')) = [106, 105, 103]"
    by (simp add: exampleSession_def restoreWindows_def restoreWindow_def focusWindow_def
        Let_def)
  show ?thesis
    using h v C2_restore_recomputes_top [of initialWM
        "[exampleSession ''finder-1'' 100, exampleSession ''finder-2'' 105,
          exampleSession ''finder-3'' 103]" "''music''" None 7 "''finder-1''"]
    by simp
qed

section \<open>Window manager: minimizing\<close>

lemma topOf_fold_props:
  "foldl (\<lambda>mx w. if zIndex w > zIndex mx then w else mx) (m :: WindowState) ws
     \<in> insert m (set ws)
   \<and> zIndex m \<le> zIndex (foldl (\<lambda>mx w. if zIndex w > zIndex mx then w else mx) m ws)
   \<and> list_all (\<lambda>v. zIndex v \<le> zIndex (foldl (\<lambda>mx w. if zIndex w > zIndex mx then w else mx) m ws)) ws"
proof (induction ws arbitrary: m)
  case Nil
  then show ?case by simp
next
  case (Cons a ws)
  let ?f = "\<lambda>mx w. if zIndex w > zIndex mx then w else (mx :: WindowState)"
  let ?m' = "?f m a"
  note ih = Cons.IH [of ?m']
  have "zIndex m \<le> zIndex ?m'" "zIndex a \<le> zIndex ?m'" by simp_all
  with ih show ?case by (auto simp: list_all_iff)
qed

lemma topOf_props:
  assumes "ws \<noteq> []"
  shows "topOf ws \<in> set ws \<and> list_all (\<lambda>v. zIndex v \<le> zIndex (topOf ws)) ws"
proof -
  have "insert (hd ws) (set ws) = set ws" using assms by (cases ws) auto
  then show ?thesis
    using topOf_fold_props [of "hd ws" ws] unfolding topOf_def by simp
qed

lemma remaining_visible:
  "filter (\<lambda>w. \<not> isMinimized w) (map (\<lambda>w. if wid w = i then w\<lparr>isMinimized := True\<rparr> else w) ws)
   = filter (\<lambda>w. wid w \<noteq> i \<and> \<not> isMinimized w) ws"
  by (induction ws) simp_all

lemma minimize_flags:
  "list_all (\<lambda>w. if wid w = i then isMinimized w else True)
     (map (\<lambda>w. if wid w = j then w\<lparr>zIndex := z\<rparr> else w)
        (map (\<lambda>w. if wid w = i then w\<lparr>isMinimized := True\<rparr> else w) ws))"
  by (induction ws) auto

lemma minimize_flags0:
  "list_all (\<lambda>w. if wid w = i then isMinimized w else True)
        (map (\<lambda>w. if wid w = i then w\<lparr>isMinimized := True\<rparr> else w) ws)"
  by (induction ws) simp_all

lemma raise_map:
  assumes "list_all (\<lambda>w. zIndex w < z) ws"
  shows "list_all (\<lambda>w. if wid w = j then zIndex w = z else zIndex w < z)
     (map (\<lambda>w. if wid w = j then w\<lparr>zIndex := z\<rparr> else w)
        (map (\<lambda>w. if wid w = i then w\<lparr>isMinimized := True\<rparr> else w) ws))"
  using assms by (induction ws) simp_all

lemma raised_member:
  assumes "t \<in> set ws" "wid t \<noteq> i"
  shows "t\<lparr>zIndex := z\<rparr> \<in> set (map (\<lambda>w. if wid w = wid t then w\<lparr>zIndex := z\<rparr> else w)
        (map (\<lambda>w. if wid w = i then w\<lparr>isMinimized := True\<rparr> else w) ws))"
  using assms by (induction ws) auto

text \<open>
  C6. Minimizing a window (the topmost one in particular) sets the minimized flag of
  the window with that id. When visible windows remain, the one \<open>t\<close> that
  \<open>minimizeWindow\<close> picks is one of them with the highest z-index among them, and
  after the call it carries the new z-index, which is strictly greater than the
  z-index of every window with another id.
\<close>

theorem C6_minimize_transfers_top:
  assumes "belowCounter wm"
  shows "list_all (\<lambda>w. if wid w = i then isMinimized w else True) (windows (minimizeWindow wm i))
    \<and> (let remaining = filter (\<lambda>w. wid w \<noteq> i \<and> \<not> isMinimized w) (windows wm)
       in remaining = [] \<or>
          (let t = topOf remaining; newZIndex = topZIndex wm + 1
           in t \<in> set remaining
              \<and> list_all (\<lambda>v. zIndex v \<le> zIndex t) remaining
              \<and> t\<lparr>zIndex := newZIndex\<rparr> \<in> set (windows (minimizeWindow wm i))
              \<and> list_all (\<lambda>w. if wid w = wid t then zIndex w = newZIndex
                               else zIndex w < newZIndex)
                   (windows (minimizeWindow wm i))))"
proof -
  let ?upd = "map (\<lambda>w. if wid w = i then w\<lparr>isMinimized := True\<rparr> else w) (windows wm)"
  let ?rem = "filter (\<lambda>w. wid w \<noteq> i \<and> \<not> isMinimized w) (windows wm)"
  have vis: "filter (\<lambda>w. \<not> isMinimized w) ?upd = ?rem" by (rule remaining_visible)
  have lt: "list_all (\<lambda>w. zIndex w < topZIndex wm + 1) (windows wm)"
    using assms by (simp add: belowCounter_def list_all_iff)
  show ?thesis
  proof (cases "?rem = []")
    case True
    then have "windows (minimizeWindow wm i) = ?upd"
      by (simp add: minimizeWindow_def Let_def vis)
    then show ?thesis using True minimize_flags0 [of i "windows wm"] by simp
  next
    case False
    let ?t = "topOf ?rem"
    have w: "windows (minimizeWindow wm i)
        = map (\<lambda>w. if wid w = wid ?t then w\<lparr>zIndex := topZIndex wm + 1\<rparr> else w) ?upd"
      using False by (simp add: minimizeWindow_def Let_def vis)
    have tp: "?t \<in> set ?rem" "list_all (\<lambda>v. zIndex v \<le> zIndex ?t) ?rem"
      using topOf_props [OF False] by simp_all
    from tp(1) have tin: "?t \<in> set (windows wm)" and tid: "wid ?t \<noteq> i" by simp_all
    have a: "list_all (\<lambda>w. if wid w = i then isMinimized w else True) (windows (minimizeWindow wm i))"
      unfolding w by (rule minimize_flags)
    have b: "?t\<lparr>zIndex := topZIndex wm + 1\<rparr> \<in> set (windows (minimizeWindow wm i))"
      unfolding w by (rule raised_member [OF tin tid])
    have c: "list_all (\<lambda>w. if wid w = wid ?t then zIndex w = topZIndex wm + 1
                               else zIndex w < topZIndex wm + 1)
                   (windows (minimizeWindow wm i))"
      unfolding w by (rule raise_map [OF lt])
    show ?thesis
      unfolding Let_def using a b c tp by blast
  qed
qed

theorem C6_minimize_transfers_top_witness:
  "belowCounter twoWindows
   \<and> map wid (windows twoWindows) = [''finder-1'', ''music-2'']
   \<and> map zIndex (windows twoWindows) = [101, 102]
   \<and> map isMinimized (windows (minimizeWindow twoWindows ''music-2'')) = [False, True]
   \<and> list_all (\<lambda>w. if wid w = ''finder-1'' then zIndex w = 103 else zIndex w < 103)
        (windows (minimizeWindow twoWindows ''music-2''))"
proof -
  have h: "belowCounter twoWindows" unfolding twoWindows_def by code_simp
  have ids: "map wid (windows twoWindows) = [''finder-1'', ''music-2'']"
    unfolding twoWindows_def by code_simp
  have zs: "map zIndex (windows twoWindows) = [101, 102]"
    unfolding twoWindows_def by code_simp
  have fl: "map isMinimized (windows (minimizeWindow twoWindows ''music-2'')) = [False, True]"
    unfolding twoWindows_def by code_simp
  have t: "wid (topOf (filter (\<lambda>w. wid w \<noteq> ''music-2'' \<and> \<not> isMinimized w) (windows twoWindows)))
      = ''finder-1''"
    unfolding twoWindows_def by code_simp
  have ne: "filter (\<lambda>w. wid w \<noteq> ''music-2'' \<and> \<not> isMinimized w) (windows twoWindows) \<noteq> []"
    unfolding twoWindows_def by code_simp
  have tz: "topZIndex twoWindows + 1 = 103" unfolding twoWindows_def by code_simp
  show ?thesis
    using h ids zs fl C6_minimize_transfers_top [OF h, of "''music-2''"] ne
    unfolding Let_def t tz by blast
qed

text \<open>
  The hypothesis of the z-order results holds in every state the window manager
  reaches: closing, maximizing, minimizing and restoring keep all windows at or below
  the counter, as opening and focusing do.
\<close>

lemma belowCounter_initialWM: "belowCounter initialWM"
  by (simp add: belowCounter_def initialWM_def)

lemma belowCounter_closeWindow: "belowCounter wm \<Longrightarrow> belowCounter (closeWindow wm i)"
  by (simp add: belowCounter_def closeWindow_def list_all_iff)

lemma belowCounter_maximizeWindow: "belowCounter wm \<Longrightarrow> belowCounter (maximizeWindow wm i)"
  by (auto simp: belowCounter_def maximizeWindow_def list_all_iff)

lemma belowCounter_minimizeWindow:
  assumes "belowCounter wm"
  shows "belowCounter (minimizeWindow wm i)"
proof -
  have lt: "\<And>w. w \<in> set (windows wm) \<Longrightarrow> zIndex w \<le> topZIndex wm"
    using assms by (simp add: belowCounter_def list_all_iff)
  show ?thesis
    unfolding belowCounter_def minimizeWindow_def Let_def
    by (auto simp: list_all_iff dest: lt)
qed

lemma belowCounter_restore_any: "belowCounter (restoreWindows wm stored)"
proof (cases stored)
  case NoItem
  then show ?thesis by (simp add: belowCounter_def restoreWindows_def)
next
  case Malformed
  then show ?thesis by (simp add: belowCounter_def restoreWindows_def)
next
  case (Sessions sessions)
  then show ?thesis by (simp only: belowCounter_restoreWindows)
qed

section \<open>The su command: authentication and session stack\<close>

lemma activeTerminalUser_push:
  "activeTerminalUser (pushSession u stack) cur = u"
  by (simp add: activeTerminalUser_def pushSession_def)

text \<open>
  What su decides. Let a non-root effective user name an existing target user other
  than itself. With a password argument (a token of the command line, so not empty)
  that differs from the target's stored password, the result is the
  authentication-failure error and the session stack is unchanged; with the stored
  password, the target is pushed onto the stack and is the terminal's effective user
  from then on; with no password argument, the result is the error asking for one
  and the stack is unchanged. A target that does not exist (and is not the acting
  user) fails with the stack unchanged, and root switches to any other existing user
  whatever the password argument.
\<close>

lemma su_authentication:
  "(terminalUser \<noteq> ''root'' \<and> suTargetUser args \<noteq> terminalUser
      \<and> find (\<lambda>u. username u = suTargetUser args) users = Some user
      \<and> length args > 1 \<and> args ! 1 \<noteq> []
    \<longrightarrow> (Some (args ! 1) \<noteq> password user
           \<longrightarrow> su args users terminalUser stack
               = (suResult ''su: Authentication failure'' True, stack))
        \<and> (Some (args ! 1) = password user
           \<longrightarrow> su args users terminalUser stack
               = (suResult (''Logged in as '' @ suTargetUser args) False,
                  stack @ [suTargetUser args])
             \<and> activeTerminalUser (snd (su args users terminalUser stack)) cur
               = suTargetUser args))
   \<and> (terminalUser \<noteq> ''root'' \<and> suTargetUser args \<noteq> terminalUser
      \<and> find (\<lambda>u. username u = suTargetUser args) users = Some user
      \<and> suPassword args = []
    \<longrightarrow> su args users terminalUser stack
          = (suResult ''su: Password required (usage: su <user> <pass>)'' True, stack))
   \<and> (suTargetUser args \<noteq> terminalUser
      \<and> find (\<lambda>u. username u = suTargetUser args) users = None
    \<longrightarrow> cmdError (fst (su args users terminalUser stack))
        \<and> snd (su args users terminalUser stack) = stack)
   \<and> (terminalUser = ''root'' \<and> suTargetUser args \<noteq> terminalUser
      \<and> find (\<lambda>u. username u = suTargetUser args) users = Some user
    \<longrightarrow> su args users terminalUser stack
          = (suResult (''Logged in as '' @ suTargetUser args) False,
             stack @ [suTargetUser args])
        \<and> activeTerminalUser (snd (su args users terminalUser stack)) cur
          = suTargetUser args)"
proof (intro conjI impI)
  assume h: "terminalUser \<noteq> ''root'' \<and> suTargetUser args \<noteq> terminalUser
      \<and> find (\<lambda>u. username u = suTargetUser args) users = Some user
      \<and> length args > 1 \<and> args ! 1 \<noteq> []"
  then have pw: "suPassword args = args ! 1" by (simp add: suPassword_def)
  {
    assume "Some (args ! 1) \<noteq> password user"
    with h pw show "su args users terminalUser stack
        = (suResult ''su: Authentication failure'' True, stack)"
      by (simp add: su_def Let_def)
  }
  {
    assume "Some (args ! 1) = password user"
    with h pw show ok: "su args users terminalUser stack
        = (suResult (''Logged in as '' @ suTargetUser args) False,
           stack @ [suTargetUser args])"
      by (simp add: su_def Let_def pushSession_def)
    show "activeTerminalUser (snd (su args users terminalUser stack)) cur
        = suTargetUser args"
      using activeTerminalUser_push [of "suTargetUser args" stack cur]
      by (simp add: ok pushSession_def)
  }
next
  assume h: "terminalUser \<noteq> ''root'' \<and> suTargetUser args \<noteq> terminalUser
      \<and> find (\<lambda>u. username u = suTargetUser args) users = Some user
      \<and> suPassword args = []"
  then show "su args users terminalUser stack
          = (suResult ''su: Password required (usage: su <user> <pass>)'' True, stack)"
    by (simp add: su_def Let_def)
next
  assume h: "suTargetUser args \<noteq> terminalUser
      \<and> find (\<lambda>u. username u = suTargetUser args) users = None"
  then show "cmdError (fst (su args users terminalUser stack))"
    by (simp add: su_def Let_def suResult_def)
  from h show "snd (su args users terminalUser stack) = stack"
    by (simp add: su_def Let_def)
next
  assume h: "terminalUser = ''root'' \<and> suTargetUser args \<noteq> terminalUser
      \<and> find (\<lambda>u. username u = suTargetUser args) users = Some user"
  then have r: "terminalUser = ''root''" and d: "suTargetUser args \<noteq> terminalUser"
    and f: "find (\<lambda>u. username u = suTargetUser args) users = Some user"
    by blast+
  show ok: "su args users terminalUser stack
        = (suResult (''Logged in as '' @ suTargetUser args) False,
           stack @ [suTargetUser args])"
    unfolding su_def Let_def using d by (simp add: f r pushSession_def)
  show "activeTerminalUser (snd (su args users terminalUser stack)) cur
        = suTargetUser args"
    using activeTerminalUser_push [of "suTargetUser args" stack cur]
    by (simp add: ok pushSession_def)
qed

lemma su_authentication_example:
  "su [''bob'', ''wrong''] exampleUsers ''alice'' [''alice'']
     = (suResult ''su: Authentication failure'' True, [''alice''])
   \<and> su [''bob'', ''secret''] exampleUsers ''alice'' [''alice'']
     = (suResult ''Logged in as bob'' False, [''alice'', ''bob''])
   \<and> activeTerminalUser (snd (su [''bob'', ''secret''] exampleUsers ''alice'' [''alice'']))
        (Some ''alice'') = ''bob''
   \<and> cmdError (fst (su [''carol'', ''secret''] exampleUsers ''alice'' [''alice'']))
   \<and> snd (su [''carol'', ''secret''] exampleUsers ''alice'' [''alice'']) = [''alice'']
   \<and> su [''bob''] exampleUsers ''root'' [''alice'', ''root'']
     = (suResult ''Logged in as bob'' False, [''alice'', ''root'', ''bob''])"
proof -
  have fb: "find (\<lambda>u. username u = ''bob'') exampleUsers = Some (exampleUser ''bob'' (Some ''secret'') 1001)"
    by (simp add: exampleUsers_def exampleUser_def)
  have fc: "find (\<lambda>u. username u = ''carol'') exampleUsers = None"
    by (simp add: exampleUsers_def exampleUser_def)
  have pb: "password (exampleUser ''bob'' (Some ''secret'') 1001) = Some ''secret''"
    by (simp add: exampleUser_def)
  have t1: "suTargetUser [''bob'', ''wrong''] = ''bob''" "suTargetUser [''bob'', ''secret''] = ''bob''"
    "suTargetUser [''carol'', ''secret''] = ''carol''" "suTargetUser [''bob''] = ''bob''"
    by (simp_all add: suTargetUser_def)
  show ?thesis
    using su_authentication [of "''alice''" "[''bob'', ''wrong'']" exampleUsers
        "exampleUser ''bob'' (Some ''secret'') 1001" "[''alice'']" "Some ''alice''"]
      su_authentication [of "''alice''" "[''bob'', ''secret'']" exampleUsers
        "exampleUser ''bob'' (Some ''secret'') 1001" "[''alice'']" "Some ''alice''"]
      su_authentication [of "''alice''" "[''carol'', ''secret'']" exampleUsers
        "exampleUser ''bob'' (Some ''secret'') 1001" "[''alice'']" "Some ''alice''"]
      su_authentication [of "''root''" "[''bob'']" exampleUsers
        "exampleUser ''bob'' (Some ''secret'') 1001" "[''alice'', ''root'']" "Some ''alice''"]
    by (simp add: fb fc pb t1 activeTerminalUser_def)
qed

text \<open>
  C10. When the target of su is the terminal's current effective user, the result is
  the message "Already logged in as ...", without the error flag, and the session
  stack is unchanged: for every user list (the target need not exist) and whatever
  password argument follows.
\<close>

theorem C10_su_same_user:
  "su (terminalUser # rest) users terminalUser stack
     = (\<lparr>cmdOutput = [Str (''Already logged in as '' @ terminalUser)], cmdError = False,
         shouldClear = False\<rparr>, stack)
   \<and> su [] users ''root'' stack
     = (\<lparr>cmdOutput = [Str ''Already logged in as root''], cmdError = False,
         shouldClear = False\<rparr>, stack)"
  by (simp add: su_def Let_def suTargetUser_def suResult_def)

section \<open>Glob expansion against the literal reading\<close>

lemma globToken_star: "globToken (CHR ''*'') = [TAtom AnyChar, TQuant Star]"
  by (simp add: globToken_def)

lemma globToken_other: "c \<noteq> CHR ''*'' \<Longrightarrow> globToken c = [TAtom (Lit c)]"
  by (simp add: globToken_def)

lemma globAtom_star: "globAtom (CHR ''*'') = (AnyChar, Star)"
  by (simp add: globAtom_def)

lemma globAtom_other: "c \<noteq> CHR ''*'' \<Longrightarrow> globAtom c = (Lit c, Once)"
  by (simp add: globAtom_def)

lemma source_Cons:
  "starsToAny (escapeDots (c # p)) =
     (if c = CHR ''*'' then ''.*'' else if c = CHR ''.'' then [CHR 0x5C, CHR ''.''] else [c])
     @ starsToAny (escapeDots p)"
  by (simp add: starsToAny_def escapeDots_def)

lemma tokens_source:
  "list_all plainChar p \<Longrightarrow>
   tokens (starsToAny (escapeDots p)) = Returned (concat (map globToken p))"
proof (induction p)
  case Nil
  then show ?case by (simp add: starsToAny_def escapeDots_def)
next
  case (Cons c p)
  then have ih: "tokens (starsToAny (escapeDots p)) = Returned (concat (map globToken p))"
    and pc: "plainChar c" by simp_all
  show ?case
  proof (cases "c = CHR ''*''")
    case True
    then show ?thesis
      by (simp add: source_Cons ih globToken_star consOutcome_def)
  next
    case star: False
    show ?thesis
    proof (cases "c = CHR ''.''")
      case True
      then show ?thesis
        by (simp add: source_Cons ih globToken_other consOutcome_def syntaxChars_def)
    next
      case False
      with star pc have "c \<notin> set syntaxChars" by (simp add: plainChar_def)
      moreover from this have "c \<noteq> CHR 0x5C" "c \<noteq> CHR ''+''" "c \<noteq> CHR ''?''"
        by (auto simp: syntaxChars_def)
      ultimately show ?thesis using star False
        by (simp add: source_Cons ih globToken_other consOutcome_def)
    qed
  qed
qed

lemma globTokens_head:
  "concat (map globToken p) = [] \<or> (\<exists>a ts. concat (map globToken p) = TAtom a # ts)"
proof (cases p)
  case Nil
  then show ?thesis by simp
next
  case (Cons c p')
  then show ?thesis by (cases "c = CHR ''*''") (simp_all add: globToken_star globToken_other)
qed

lemma atoms_TAtom_plain:
  assumes "ts = [] \<or> (\<exists>a' ts'. ts = TAtom a' # ts')"
  shows "atoms (TAtom a # ts) = consOutcome (a, Once) (atoms ts)"
  using assms by auto

lemma atoms_TAtom_star:
  assumes "ts = [] \<or> (\<exists>a' ts'. ts = TAtom a' # ts')"
  shows "atoms (TAtom a # TQuant Star # ts) = consOutcome (a, Star) (atoms ts)"
  using assms by auto

lemma atoms_globTokens:
  "atoms (concat (map globToken p)) = Returned (map globAtom p)"
proof (induction p)
  case Nil
  then show ?case by simp
next
  case (Cons c p)
  show ?case
  proof (cases "c = CHR ''*''")
    case True
    then show ?thesis
      using atoms_TAtom_star [OF globTokens_head [of p], of AnyChar] Cons.IH
      by (simp add: globToken_star globAtom_star consOutcome_def)
  next
    case False
    then show ?thesis
      using atoms_TAtom_plain [OF globTokens_head [of p], of "Lit c"] Cons.IH
      by (simp add: globToken_other globAtom_other consOutcome_def)
  qed
qed

lemma newRegExp_source:
  assumes "list_all plainChar p"
  shows "newRegExp (''^'' @ starsToAny (escapeDots p) @ ''$'') = Returned (map globAtom p)"
  using tokens_source [OF assms] atoms_globTokens [of p]
  by (simp add: newRegExp_def)

lemma regexTest_glob:
  "noLineBreak s \<Longrightarrow> regexTest (map globAtom p) s = globMatches p s"
proof (induction p s rule: globMatches.induct)
  case (1 s)
  then show ?case by simp
next
  case (2 p ps)
  then show ?case
    by (cases "p = CHR ''*''") (simp_all add: globAtom_star globAtom_other noLineBreak_def)
next
  case (3 p ps c cs)
  then show ?case
    by (cases "p = CHR ''*''") (auto simp: globAtom_star globAtom_other noLineBreak_def)
qed

lemma expandGlob_refines_glob:
  assumes "list_all plainChar pattern"
    and "list_all (\<lambda>f. noLineBreak (nodeName f)) fs"
    and "includesStr pattern ''*''" and "\<not> includesStr pattern ''/''"
  shows "expandGlob (Some fs) pattern =
     Returned (let matches = filter (globMatches pattern) (map nodeName fs)
               in if matches = [] then [pattern] else matches)"
proof -
  have "filter (\<lambda>f. regexTest (map globAtom pattern) (nodeName f)) fs
      = filter (\<lambda>f. globMatches pattern (nodeName f)) fs"
    using assms(2) by (intro filter_cong) (auto simp: list_all_iff regexTest_glob)
  then have "map nodeName (filter (\<lambda>f. regexTest (map globAtom pattern) (nodeName f)) fs)
      = filter (globMatches pattern) (map nodeName fs)"
    by (simp add: filter_map comp_def)
  then show ?thesis
    unfolding expandGlob_def newRegExp_source [OF assms(1)]
    using assms(3,4) by (simp add: Let_def)
qed

lemma expandGlob_unexpanded:
  "\<not> includesStr pattern ''*'' \<or> includesStr pattern ''/'' \<Longrightarrow>
   expandGlob files pattern = Returned [pattern]"
  by (auto simp: expandGlob_def)

lemma expandGlob_nonempty:
  "expandGlob files pattern = Returned xs \<Longrightarrow> xs \<noteq> []"
  by (auto simp: expandGlob_def Let_def split: if_splits option.splits Outcome.splits)

lemma expandGlob_txt_example:
  "expandGlob (Some exampleDir) ''*.txt'' = Returned [''a.txt'', ''b.txt'']"
  by code_simp

text \<open>
  C4. Glob expansion translates \<open>*\<close> to a wildcard and escapes the dot, but leaves
  every other syntax character of regular expressions active. In the directory
  \<open>{a.txt, b.txt, c.md}\<close> the pattern \<open>a+*\<close> expands to \<open>a.txt\<close>, although no name
  matches it when \<open>+\<close> is read literally (the literal pattern should have been
  kept); and the pattern \<open>*.c++\<close> makes the construction of the regular expression
  throw, where expansion is meant never to be an error. The lemmas before this one
  show that on patterns without such characters the code expands \<open>*\<close> as a wildcard
  with every other character literal, and keeps the literal pattern when nothing
  matches.
\<close>

theorem C4_glob_metacharacters:
  "expandGlob (Some exampleDir) ''a+*'' = Returned [''a.txt'']
   \<and> filter (globMatches ''a+*'') (map nodeName exampleDir) = []
   \<and> expandGlob (Some exampleDir) ''*.c++'' = Thrown"
  by code_simp

section \<open>Output redirection\<close>

lemma redirectWrite_no_text:
  "textContent out = [] \<Longrightarrow> redirectWrite hk fs redirectPath appendMode out err = (fs, out, err)"
  by (simp add: redirectWrite_def split: option.splits)

lemma textContent_no_lines: "filter isText out = [] \<Longrightarrow> textContent out = []"
  by (simp add: textContent_def)

text \<open>
  C9. When a command produces no line of string or number type, the redirection step
  writes nothing: it returns the file system, the output and the error flag as they
  were, whatever the target and the mode. The file system after the command is the
  one the command left, and (unless the command asked to clear the transcript, in
  which case the redirection step is not reached) the entry appended to the
  transcript shows the command's output lines.
\<close>

theorem C9_redirect_without_text:
  assumes "filter isText (cmdOutput result) = []"
  shows "redirectWrite hk fs redirectPath appendMode (cmdOutput result) (cmdError result)
           = (fs, cmdOutput result, cmdError result)
    \<and> fileSystem (completeCommand hk t redirectPath appendMode result t') = fileSystem t'
    \<and> (shouldClear result \<or>
        history (completeCommand hk t redirectPath appendMode result t')
          = history t' @
            [\<lparr>hCommand = inputLine t, hOutput = cmdOutput result, hError = cmdError result,
              hPath = currentPath t,
              hAccentColor = Some (getTerminalAccentColor hk t),
              hUser = Some (activeTerminalUser (sessionStack t) (currentUser hk))\<rparr>])"
proof -
  have rw: "\<And>fs. redirectWrite hk fs redirectPath appendMode (cmdOutput result) (cmdError result)
           = (fs, cmdOutput result, cmdError result)"
    using textContent_no_lines [OF assms] by (rule redirectWrite_no_text)
  show ?thesis
    by (simp add: rw completeCommand_def)
qed

theorem C9_redirect_without_text_witness:
  "filter isText (cmdOutput richResult) = []
   \<and> parseRedirect ''true > /tmp/out.txt'' = (''true'', Some outFile, False)
   \<and> fileSystem (completeCommand storeHooks oldStore (Some outFile) False richResult oldStore)
       = [(outFile, ''old'')]
   \<and> map hOutput (history (completeCommand storeHooks oldStore (Some outFile) False
                              richResult oldStore)) = [[Rich, Rich]]"
proof -
  have h: "filter isText (cmdOutput richResult) = []" by (simp add: richResult_def)
  have p: "parseRedirect ''true > /tmp/out.txt'' = (''true'', Some outFile, False)"
    unfolding outFile_def by code_simp
  have c: "\<not> shouldClear richResult" by (simp add: richResult_def)
  have o: "cmdOutput richResult = [Rich, Rich]" by (simp add: richResult_def)
  have f: "fileSystem oldStore = [(outFile, ''old'')]" "history oldStore = []"
    by (simp_all add: oldStore_def storeTerminal_def)
  show ?thesis
    using h p c C9_redirect_without_text [OF h, of storeHooks "fileSystem oldStore" "Some outFile"
        False oldStore oldStore]
    by (simp add: o f)
qed




section \<open>Desktop: dropping an icon on an occupied cell\<close>

lemma find_member:
  assumes "i \<in> set (map iconId icons)"
  shows "\<exists>s. find (\<lambda>icon. iconId icon = i) icons = Some s"
  using assms by (induction icons) auto

lemma sqrt_less_35: "(sqrt x < 35) = (x < 1225)"
proof -
  have "sqrt 1225 = 35" by (rule real_sqrt_unique) simp_all
  then show ?thesis using real_sqrt_less_iff [of x 1225] by simp
qed

lemma find_first:
  assumes "list_all (\<lambda>x. \<not> P x) before" and "P x"
  shows "find P (before @ x # after) = Some x"
  using assms by (induction before) simp_all

lemma centerDistance_euclidean:
  "centerDistance t p = euclideanDistance (iconCenter t) (iconCenter p)"
proof -
  have "(fst t + 50 - (fst p + 50)) * (fst t + 50 - (fst p + 50)) = (fst t + 50 - (fst p + 50))\<^sup>2"
    "(snd t + 50 - (snd p + 50)) * (snd t + 50 - (snd p + 50)) = (snd t + 50 - (snd p + 50))\<^sup>2"
    by (simp_all add: power2_eq_square)
  then show ?thesis
    by (simp add: centerDistance_def euclideanDistance_def iconCenter_def Let_def)
qed

lemma conflictingIcon_first:
  assumes keys: "inj_on (gridPosToKey api) (insert target (ran (iconGridPositions d)))"
    and cell: "target = pixelToGrid api (fst pos) (snd pos)
                 (getGridConfig api (fst (innerSize d)) (snd (innerSize d)))"
    and icons: "desktopIcons d = before @ occupant # after"
    and first: "list_all (\<lambda>icon. \<not> occupiesCell d i target icon) before"
    and occ: "occupiesCell d i target occupant"
  shows "conflictingIcon api d i pos = Some occupant"
proof -
  let ?P = "\<lambda>icon. iconId icon \<noteq> i
                 \<and> (case iconGridPositions d (iconId icon) of
                      None \<Rightarrow> False
                    | Some iconGridPos \<Rightarrow> gridPosToKey api iconGridPos = gridPosToKey api target)"
  have same: "gridPosToKey api g = gridPosToKey api target \<longleftrightarrow> g = target"
    if "iconGridPositions d k = Some g" for k g
  proof -
    have "g \<in> insert target (ran (iconGridPositions d))"
      using that by (auto simp: ran_def)
    then show ?thesis using keys by (auto simp: inj_on_def)
  qed
  have eq: "?P icon \<longleftrightarrow> occupiesCell d i target icon" for icon
    by (cases "iconGridPositions d (iconId icon)") (auto simp: occupiesCell_def same)
  have "list_all (\<lambda>icon. \<not> ?P icon) before"
    using first by (simp only: eq)
  moreover have "?P occupant" using occ by (simp only: eq)
  ultimately have "find ?P (before @ occupant # after) = Some occupant"
    by (rule find_first)
  then show ?thesis
    unfolding conflictingIcon_def Let_def icons cell [symmetric] .
qed

lemma example_ran:
  "ran (iconGridPositions exampleDesktop) = {\<lparr>col = 0, row = 0\<rparr>, \<lparr>col = 1, row = 0\<rparr>}"
proof -
  have "iconGridPositions exampleDesktop
      = [''n1'' \<mapsto> \<lparr>col = 0, row = 0\<rparr>, ''n2'' \<mapsto> \<lparr>col = 1, row = 0\<rparr>]"
    by (simp add: exampleDesktop_def)
  moreover have "[''n1'' \<mapsto> \<lparr>col = 0, row = 0\<rparr>] ''n2'' = None" by simp
  ultimately show ?thesis
    by (simp only: ran_map_upd ran_empty fun_upd_same option.sel) (simp add: insert_commute)
qed

lemma showNat_digits: "showNat 0 = ''0''" "showNat (Suc 0) = ''1''"
  by code_simp+

lemma example_key_values:
  "gridPosToKey exampleGrid \<lparr>col = 0, row = 0\<rparr> = ''0,0''"
  "gridPosToKey exampleGrid \<lparr>col = 1, row = 0\<rparr> = ''1,0''"
  by (simp_all add: exampleGrid_def showNat_digits)

lemma example_keys:
  "inj_on (gridPosToKey exampleGrid) (insert \<lparr>col = 0, row = 0\<rparr> (ran (iconGridPositions exampleDesktop)))"
  "inj_on (gridPosToKey exampleGrid) (insert \<lparr>col = 1, row = 0\<rparr> (ran (iconGridPositions exampleDesktop)))"
  by (auto simp: example_ran inj_on_def example_key_values)

text \<open>
  C8. Let an icon of the desktop be dropped at a pixel position whose grid cell
  \<open>target\<close> is the stored cell of another icon, \<open>occupant\<close> being the first such icon
  in desktop order (cells are told apart by their keys). If the occupant is a folder
  and the Euclidean distance between the centre of the dropped icon and the centre of
  the folder's icon is below 35 pixels, the dragged item is handed to
  \<open>moveNodeById\<close> with the folder's path as destination, its entry is removed from
  the position map, and \<open>rearrangeGrid\<close> is not called. Otherwise (the occupant is
  not a folder, or the distance is at least 35 pixels) the position map becomes the
  result of \<open>rearrangeGrid\<close> and the file system is untouched.
\<close>

theorem C8_folder_merge_on_drop:
  assumes keys: "inj_on (gridPosToKey api) (insert target (ran (iconGridPositions d)))"
    and cfg: "config = getGridConfig api (fst (innerSize d)) (snd (innerSize d))"
    and cell: "target = pixelToGrid api (fst pos) (snd pos) config"
    and icons: "desktopIcons d = before @ occupant # after"
    and first: "list_all (\<lambda>icon. \<not> occupiesCell d i target icon) before"
    and occ: "occupiesCell d i target occupant"
    and dragged: "i \<in> set (map iconId (desktopIcons d))"
  shows "updateIconPosition api hk d i pos =
     (if iconType occupant = Folder
         \<and> euclideanDistance (iconCenter (gridToPixel api target config)) (iconCenter pos) < 35
      then (d\<lparr>desktopFileSystem :=
                 fst (moveNodeById hk (desktopFileSystem d) i
                        (fsResolvePath hk (''~/Desktop/'' @ iconName occupant))),
               iconGridPositions := (iconGridPositions d)(i := None)\<rparr>,
            MovedIntoFolder i (fsResolvePath hk (''~/Desktop/'' @ iconName occupant)))
      else (d\<lparr>iconGridPositions :=
                 rearrangeGrid api (map iconId (desktopIcons d)) (iconGridPositions d) i
                   target (snd (windowSize d)) config\<rparr>,
            Rearranged))"
proof -
  have c: "conflictingIcon api d i pos = Some occupant"
    using keys cell [unfolded cfg] icons first occ by (rule conflictingIcon_first)
  have p: "iconGridPositions d (iconId occupant) = Some target"
    using occ by (simp add: occupiesCell_def)
  obtain s where s: "find (\<lambda>icon. iconId icon = i) (desktopIcons d) = Some s"
    using find_member [OF dragged] by blast
  have t: "pixelToGrid api (fst pos) (snd pos)
             (getGridConfig api (fst (innerSize d)) (snd (innerSize d))) = target"
    by (simp only: cell cfg)
  have g: "getGridConfig api (fst (innerSize d)) (snd (innerSize d)) = config"
    by (simp only: cfg)
  have t': "pixelToGrid api (fst pos) (snd pos) config = target"
    by (simp only: cell)
  show ?thesis
    unfolding updateIconPosition_def Let_def g t'
    by (simp add: c p s centerDistance_euclidean)
qed


theorem C8_folder_merge_on_drop_witness:
  "occupiesCell exampleDesktop ''n2'' \<lparr>col = 0, row = 0\<rparr>
     \<lparr>iconId = ''n1'', iconName = ''Projects'', iconType = Folder,
      iconPosition = (0, 0), iconIsEmpty = Some True\<rparr>
   \<and> euclideanDistance (iconCenter (0, 0)) (iconCenter (10, 20)) < 35
   \<and> updateIconPosition exampleGrid exampleDesktopHooks exampleDesktop ''n2'' (10, 20)
     = (exampleDesktop\<lparr>desktopFileSystem := [(''n2'', ''/home/alice/Desktop/Projects'')],
                       iconGridPositions := (iconGridPositions exampleDesktop)(''n2'' := None)\<rparr>,
        MovedIntoFolder ''n2'' ''/home/alice/Desktop/Projects'')
   \<and> \<not> euclideanDistance (iconCenter (0, 0)) (iconCenter (60, 70)) < 35
   \<and> snd (updateIconPosition exampleGrid exampleDesktopHooks exampleDesktop ''n2'' (60, 70))
     = Rearranged
   \<and> snd (updateIconPosition exampleGrid exampleDesktopHooks exampleDesktop ''n1'' (110, 20))
     = Rearranged"
proof -
  let ?folder = "\<lparr>iconId = ''n1'', iconName = ''Projects'', iconType = Folder,
          iconPosition = (0, 0), iconIsEmpty = Some True\<rparr>"
  let ?file = "\<lparr>iconId = ''n2'', iconName = ''notes.txt'', iconType = FileIcon,
          iconPosition = (100, 0), iconIsEmpty = None\<rparr>"
  let ?c0 = "\<lparr>col = 0, row = 0\<rparr>"
  let ?c1 = "\<lparr>col = 1, row = 0\<rparr>"
  have cfg: "() = getGridConfig exampleGrid (fst (innerSize exampleDesktop))
                    (snd (innerSize exampleDesktop))"
    by simp
  have t1: "?c0 = pixelToGrid exampleGrid (fst (10, 20)) (snd (10, 20)) ()"
    and t2: "?c0 = pixelToGrid exampleGrid (fst (60, 70)) (snd (60, 70)) ()"
    and t3: "?c1 = pixelToGrid exampleGrid (fst (110, 20)) (snd (110, 20)) ()"
    by (simp_all add: exampleGrid_def)
  have i1: "desktopIcons exampleDesktop = [] @ ?folder # [?file]"
    and i3: "desktopIcons exampleDesktop = [?folder] @ ?file # []"
    by (simp_all add: exampleDesktop_def)
  have f1: "list_all (\<lambda>icon. \<not> occupiesCell exampleDesktop ''n2'' ?c0 icon) []"
    and f3: "list_all (\<lambda>icon. \<not> occupiesCell exampleDesktop ''n1'' ?c1 icon) [?folder]"
    by (simp_all add: occupiesCell_def)
  have o1: "occupiesCell exampleDesktop ''n2'' ?c0 ?folder"
    and o3: "occupiesCell exampleDesktop ''n1'' ?c1 ?file"
    by (simp_all add: occupiesCell_def exampleDesktop_def)
  have m1: "''n2'' \<in> set (map iconId (desktopIcons exampleDesktop))"
    and m3: "''n1'' \<in> set (map iconId (desktopIcons exampleDesktop))"
    by (simp_all add: exampleDesktop_def)
  have px: "gridToPixel exampleGrid ?c0 () = (0, 0)"
    by (simp add: exampleGrid_def)
  have d1: "euclideanDistance (iconCenter (0, 0)) (iconCenter (10, 20)) < 35"
    by (simp add: euclideanDistance_def iconCenter_def sqrt_less_35)
  have d2: "\<not> euclideanDistance (iconCenter (0, 0)) (iconCenter (60, 70)) < 35"
    by (simp add: euclideanDistance_def iconCenter_def sqrt_less_35)
  have r: "fsResolvePath exampleDesktopHooks ''~/Desktop/Projects''
      = ''/home/alice/Desktop/Projects''"
    by (simp add: exampleDesktopHooks_def)
  have mv: "fst (moveNodeById exampleDesktopHooks (desktopFileSystem exampleDesktop) ''n2''
                   ''/home/alice/Desktop/Projects'') = [(''n2'', ''/home/alice/Desktop/Projects'')]"
    by (simp add: exampleDesktopHooks_def exampleDesktop_def)
  have u1: "updateIconPosition exampleGrid exampleDesktopHooks exampleDesktop ''n2'' (10, 20)
      = (exampleDesktop\<lparr>desktopFileSystem := [(''n2'', ''/home/alice/Desktop/Projects'')],
                        iconGridPositions := (iconGridPositions exampleDesktop)(''n2'' := None)\<rparr>,
         MovedIntoFolder ''n2'' ''/home/alice/Desktop/Projects'')"
    using C8_folder_merge_on_drop [OF example_keys(1) cfg t1 i1 f1 o1 m1, of exampleDesktopHooks] d1
    by (simp add: px r mv)
  have u2: "snd (updateIconPosition exampleGrid exampleDesktopHooks exampleDesktop ''n2'' (60, 70))
      = Rearranged"
    using C8_folder_merge_on_drop [OF example_keys(1) cfg t2 i1 f1 o1 m1, of exampleDesktopHooks] d2
    by (simp add: px)
  have u3: "snd (updateIconPosition exampleGrid exampleDesktopHooks exampleDesktop ''n1'' (110, 20))
      = Rearranged"
    using C8_folder_merge_on_drop [OF example_keys(2) cfg t3 i3 f3 o3 m3, of exampleDesktopHooks]
    by simp
  show ?thesis using o1 d1 d2 u2 u3 by (simp add: u1)
qed

section \<open>After su: which user the terminal's file operations act as\<close>

lemma su_password_required_example:
  "su [''bob''] exampleUsers ''alice'' [''alice'']
     = (suResult ''su: Password required (usage: su <user> <pass>)'' True, [''alice''])"
  by (simp add: su_def Let_def suTargetUser_def suPassword_def exampleUsers_def exampleUser_def)

text \<open>
  A command of the registry works on the proxy scoped to the terminal's effective
  user: each operation of the proxy is the context's operation with that user as the
  acting one.
\<close>

lemma registry_command_scoped:
  assumes "getCommand registry command = Some terminalCommand"
    and "user = activeTerminalUser (sessionStack t) (ctxCurrentUser ctx)"
  shows "generateOutputOf ctx registry onLaunchApp resolve command args t
     = terminalCommand
         \<lparr>ccArgs = args,
          ccFileSystem = createScopedFileSystem ctx user,
          ccAs = createScopedFileSystem ctx,
          ccCurrentPath = currentPath t,
          ccResolvePath = resolve,
          ccAllCommands = getAllCommands registry,
          ccTerminalUser = user\<rparr> t"
  using assms by (simp add: generateOutputOf_def Let_def)

lemma scoped_operations:
  "sfReadFile (createScopedFileSystem ctx u) fs p = ctxReadFile ctx fs p (Some u)"
  "sfWriteFile (createScopedFileSystem ctx u) fs p c = ctxWriteFile ctx fs p c (Some u)"
  "sfListDirectory (createScopedFileSystem ctx u) fs p = ctxListDirectory ctx fs p (Some u)"
  "sfGetNodeAtPath (createScopedFileSystem ctx u) fs p = ctxGetNodeAtPath ctx fs p (Some u)"
  by (simp_all add: createScopedFileSystem_def)

text \<open>
  The redirection step and the search for an executable file do not: they call the
  context without an acting user, whatever the session stack holds.
\<close>

lemma redirection_unscoped:
  "readFile (terminalHooks ctx accent registry onLaunchApp) fs p = ctxReadFile ctx fs p None"
  "writeFile (terminalHooks ctx accent registry onLaunchApp) fs p c = ctxWriteFile ctx fs p c None"
  by (simp_all add: terminalHooks_def Let_def)

text \<open>
  C3. In alice's terminal, \<open>su bob wrong\<close> is an authentication failure and
  \<open>su bob\<close> asks for a password, both leaving the session stack as it was;
  \<open>su bob secret\<close> pushes bob onto the session stack and bob is the effective user: \<open>whoami\<close> prints bob, and \<open>cat\<close> reads a file that
  only bob may read. But the operations the terminal issues itself still act as
  alice, the globally logged-in user. Redirecting into bob's own file fails, though
  bob may write it; redirecting into alice's file succeeds, though bob may not write
  it. After \<open>su root admin\<close>, a launcher that only root may read is not found. So
  not every filesystem operation issued from the terminal acts as the target user.
\<close>

theorem C3_su_acting_user:
  "hOutput (last (history (submitWith ownedHooks aliceTerminal ''su bob wrong'')))
       = [Str ''su: Authentication failure'']
   \<and> sessionStack (submitWith ownedHooks aliceTerminal ''su bob wrong'') = [''alice'']
   \<and> hOutput (last (history (submitWith ownedHooks aliceTerminal ''su bob'')))
       = [Str ''su: Password required (usage: su <user> <pass>)'']
   \<and> sessionStack (submitWith ownedHooks aliceTerminal ''su bob'') = [''alice'']
   \<and> sessionStack asBob = [''alice'', ''bob'']
   \<and> activeTerminalUser (sessionStack asBob) (currentUser ownedHooks) = ''bob''
   \<and> hOutput (last (history (submitWith ownedHooks asBob ''whoami''))) = [Str ''bob'']
   \<and> hOutput (last (history (submitWith ownedHooks asBob ''cat /home/bob/todo.txt'')))
       = [Str ''buy milk'']
   \<and> snd (ctxWriteFile ownedContext (fileSystem asBob) ''/home/bob/todo.txt'' ''hi''
             (Some ''bob''))
   \<and> hOutput (last (history (submitWith ownedHooks asBob ''echo hi > /home/bob/todo.txt'')))
       = [Str ''Failed to write to /home/bob/todo.txt'']
   \<and> hError (last (history (submitWith ownedHooks asBob ''echo hi > /home/bob/todo.txt'')))
   \<and> hUser (last (history (submitWith ownedHooks asBob ''echo hi > /home/bob/todo.txt'')))
       = Some ''bob''
   \<and> fileSystem (submitWith ownedHooks asBob ''echo hi > /home/bob/todo.txt'') = ownedFiles
   \<and> \<not> snd (ctxWriteFile ownedContext (fileSystem asBob) ''/home/alice/notes.txt'' ''hi''
               (Some ''bob''))
   \<and> hOutput (last (history (submitWith ownedHooks asBob ''echo hi > /home/alice/notes.txt'')))
       = []
   \<and> ctxReadFile ownedContext
        (fileSystem (submitWith ownedHooks asBob ''echo hi > /home/alice/notes.txt''))
        ''/home/alice/notes.txt'' (Some ''alice'') = Some ''hi''
   \<and> sessionStack asRoot = [''alice'', ''root'']
   \<and> isFileNode (ctxGetNodeAtPath ownedContext (fileSystem asRoot) ''/bin/paint''
                   (Some ''root''))
   \<and> hOutput (last (history (submitWith ownedHooks asRoot ''paint'')))
       = [Str ''paint: command not found'']"
  unfolding asBob_def asRoot_def by code_simp

end
